theory Spec2Isabelle
  imports Main "HOL-Library.AList"
begin

section \<open>Strings and JavaScript primitives\<close>

text \<open>
  Source strings are modelled as \<open>string\<close>; a character stands for one code unit of a
  JavaScript string, of which the model tells 256 apart: the 128 of ASCII and 128 others,
  which stand for the code units outside ASCII. What the language does with the case of letters is not defined here:
  \<open>String.prototype.toLowerCase\<close>, \<open>String.prototype.toUpperCase\<close>, the canonical
  form of a character under the flag \<open>i\<close> and the compilation of regular expressions
  are taken from the runtime, a parameter of the model (\<open>js_runtime\<close> below).
\<close>

definition is_upper :: "char \<Rightarrow> bool" where
  "is_upper c = (65 \<le> (of_char c :: nat) \<and> (of_char c :: nat) \<le> 90)"

definition is_lower :: "char \<Rightarrow> bool" where
  "is_lower c = (97 \<le> (of_char c :: nat) \<and> (of_char c :: nat) \<le> 122)"

definition is_digit :: "char \<Rightarrow> bool" where
  "is_digit c = (48 \<le> (of_char c :: nat) \<and> (of_char c :: nat) \<le> 57)"

text \<open>
  The case mapping of ASCII: only the letters A-Z and a-z are moved. It serves to say what
  a runtime does on ASCII text, and to build one for the examples.
\<close>

definition is_ascii :: "char \<Rightarrow> bool" where
  "is_ascii c = ((of_char c :: nat) < 128)"

definition ascii_text :: "string \<Rightarrow> bool" where
  "ascii_text s = list_all is_ascii s"

definition ascii_lower_char :: "char \<Rightarrow> char" where
  "ascii_lower_char c =
     (if is_upper c
      then (case c of Char b0 b1 b2 b3 b4 b5 b6 b7 \<Rightarrow> Char b0 b1 b2 b3 b4 True b6 b7)
      else c)"

definition ascii_upper_char :: "char \<Rightarrow> char" where
  "ascii_upper_char c =
     (if is_lower c
      then (case c of Char b0 b1 b2 b3 b4 b5 b6 b7 \<Rightarrow> Char b0 b1 b2 b3 b4 False b6 b7)
      else c)"

definition ascii_lower :: "string \<Rightarrow> string" where
  "ascii_lower s = map ascii_lower_char s"

definition ascii_upper :: "string \<Rightarrow> string" where
  "ascii_upper s = map ascii_upper_char s"

text \<open>
  The runtime. \<open>canonicalize\<close> is the canonical form of a code unit under the flag
  \<open>i\<close> (without the flag \<open>u\<close>): two code units match when their canonical forms are
  equal. \<open>js_replace source\<close> stands for \<open>new RegExp(source, 'gi')\<close>: it is \<open>None\<close>
  when the constructor throws a \<open>SyntaxError\<close>, and otherwise the function that takes a
  string and a replacement text to \<open>str.replace(regex, replacement)\<close>.
\<close>

record js_runtime =
  js_toLowerCase :: "string \<Rightarrow> string"
  js_toUpperCase :: "string \<Rightarrow> string"
  canonicalize :: "char \<Rightarrow> char"
  js_replace :: "string \<Rightarrow> (string \<Rightarrow> string \<Rightarrow> string) option"

text \<open>
  What the language definition fixes for ASCII text: lower-casing and upper-casing an
  ASCII string is the ASCII case mapping; a lower-cased string has none of the letters
  A-Z; and an ASCII code unit has the canonical form of another code unit exactly when the
  two are the same ASCII letter up to case, or the same character.
\<close>

definition runtime_ascii :: "js_runtime \<Rightarrow> bool" where
  "runtime_ascii rt =
     ((\<forall>s. ascii_text s \<longrightarrow> js_toLowerCase rt s = ascii_lower s)
      \<and> (\<forall>s. ascii_text s \<longrightarrow> js_toUpperCase rt s = ascii_upper s)
      \<and> (\<forall>s. \<forall>c \<in> set (js_toLowerCase rt s). \<not> is_upper c)
      \<and> (\<forall>a c. is_ascii a \<longrightarrow>
             (canonicalize rt a = canonicalize rt c) = (ascii_upper_char a = ascii_upper_char c)))"

text \<open>JavaScript truthiness of a string, and \<open>a || b\<close> on an optional string.\<close>

definition truthy :: "string option \<Rightarrow> bool" where
  "truthy v = (case v of None \<Rightarrow> False | Some s \<Rightarrow> s \<noteq> [])"

definition or_else :: "string option \<Rightarrow> string \<Rightarrow> string" where
  "or_else v d = (case v of None \<Rightarrow> d | Some s \<Rightarrow> if s = [] then d else s)"

text \<open>\<open>s.split(sep)\<close> for a one-character separator: never an empty array.\<close>

fun split :: "char \<Rightarrow> string \<Rightarrow> string list" where
  "split sep [] = [[]]"
| "split sep (c # cs) =
     (if c = sep then [] # split sep cs
      else (case split sep cs of [] \<Rightarrow> [[c]] | x # xs \<Rightarrow> (c # x) # xs))"

text \<open>\<open>xs.pop()\<close>: the last element, \<open>undefined\<close> on an empty array.\<close>

definition pop :: "'a list \<Rightarrow> 'a option" where
  "pop xs = (if xs = [] then None else Some (last xs))"

section \<open>Shell resolver\<close>

text \<open>What the code reads of the process: \<open>process.platform\<close>, \<open>process.env\<close>, \<open>process.cwd()\<close>.\<close>

record process_env =
  platform :: string
  env_COMSPEC :: "string option"
  env_SHELL :: "string option"
  cwd :: string

definition supportedShells :: "string list" where
  "supportedShells = [''bash'', ''zsh'', ''busybox'', ''csh'', ''dash'']"

definition detectDefaultShell :: "process_env \<Rightarrow> string" where
  "detectDefaultShell p =
     (if platform p = ''win32'' then or_else (env_COMSPEC p) ''cmd.exe''
      else (case env_SHELL p of
              None \<Rightarrow> ''/bin/bash''
            | Some systemShell \<Rightarrow>
                if systemShell = [] then ''/bin/bash''
                else (let shellName = or_else (pop (split CHR ''/'' systemShell)) systemShell
                      in if shellName \<in> set supportedShells then systemShell
                         else ''/bin/bash'')))"

text \<open>The basename of a path, as a specification: what follows the last slash.\<close>

definition path_basename :: "string \<Rightarrow> string" where
  "path_basename s = rev (takeWhile (\<lambda>c. c \<noteq> CHR ''/'') (rev s))"

record PluginSettings =
  defaultWorkingDirectory :: string
  showNotifications :: bool
  maxOutputLength :: nat
  shellProgram :: string
  useLoginShell :: bool

definition getShellPath :: "process_env \<Rightarrow> string \<Rightarrow> string" where
  "getShellPath p shell =
     (if platform p = ''win32'' then
        (if shell = ''cmd'' then ''cmd.exe''
         else if shell = ''powershell'' then ''powershell.exe''
         else ''cmd.exe'')
      else
        (if shell = ''bash'' then ''/bin/bash''
         else if shell = ''zsh'' then ''/bin/zsh''
         else if shell = ''busybox'' then ''/bin/busybox''
         else if shell = ''csh'' then ''/bin/csh''
         else if shell = ''dash'' then ''/bin/dash''
         else ''/bin/bash''))"

definition getSelectedShell :: "PluginSettings \<Rightarrow> process_env \<Rightarrow> string" where
  "getSelectedShell st p =
     (if shellProgram st = ''auto'' then detectDefaultShell p
      else getShellPath p (shellProgram st))"

text \<open>Every branch of the source's switch returns the same flag.\<close>

definition getLoginFlag :: "string \<Rightarrow> string option" where
  "getLoginFlag shell = Some ''-l''"

definition getShellWithLoginFlag :: "PluginSettings \<Rightarrow> process_env \<Rightarrow> string list" where
  "getShellWithLoginFlag st p =
     (let shell = getSelectedShell st p in
      if platform p = ''win32'' \<or> \<not> useLoginShell st then [shell]
      else (case getLoginFlag shell of
              Some loginFlag \<Rightarrow> if loginFlag \<noteq> [] then [shell, loginFlag] else [shell]
            | None \<Rightarrow> [shell]))"

definition getShellDisplayName :: "PluginSettings \<Rightarrow> process_env \<Rightarrow> string" where
  "getShellDisplayName st p =
     (if shellProgram st = ''auto'' then
        (let shell = detectDefaultShell p;
             shellName = or_else (pop (split CHR ''/'' shell))
                           (or_else (pop (split (CHR 0x5C) shell)) shell)
         in shellName @ '' (auto-detected)'')
      else shellProgram st)"

section \<open>Data model\<close>

record PromptConfig =
  prompt_name :: string
  displayName :: string

record CommandScript =
  script_id :: string
  name :: string
  description :: "string option"
  script_command :: string
  workingDirectory :: "string option"
  useAbsolutePath :: "bool option"
  backgroundExecution :: "bool option"
  script_prompts :: "PromptConfig list option"
  defaultAction :: "string option"
  enabled :: bool

text \<open>
  Editor positions are non-negative integers. \<open>prompts\<close> holds the entries of the
  prompts object in the order \<open>Object.entries\<close> enumerates them; its keys are distinct.
\<close>

record EditorPosition =
  line :: nat
  ch :: nat

record ParameterContext =
  activeNote :: "string option"
  activeNotePath :: "string option"
  activeNoteContent :: "string option"
  selectedText :: "string option"
  currentDirectory :: "string option"
  vaultPath :: "string option"
  currentLine :: "string option"
  currentLineNumber :: "nat option"
  cursorPosition :: "EditorPosition option"
  prompts :: "(string \<times> string) list option"

text \<open>
  The field \<open>output\<close> is named \<open>output_text\<close> here. \<open>exitCode\<close> is declared a number,
  but the failure path stores \<open>error.code || -1\<close> of
  an untyped error, which may be a number or a string.
\<close>

datatype js_code = CodeNum int | CodeStr string

record CommandExecutionResult =
  success :: bool
  output_text :: string
  error :: string
  exitCode :: js_code
  command :: string
  originalCommand :: string
  parameters :: ParameterContext

section \<open>Parameter context collector\<close>

text \<open>
  What \<open>getParameterContext\<close> reads of the host: the vault path (the value of
  \<open>getVaultPath()\<close>), the active file with the outcome of reading it (\<open>None\<close> when the
  read throws), and the editor of the active view.
\<close>

record ActiveFile =
  file_basename :: string
  file_path :: string
  file_parent :: "string option"
  file_read :: "string option"

record ActiveEditor =
  getSelection :: string
  getCursor :: EditorPosition
  getLine :: "nat \<Rightarrow> string"

record Host =
  host_vaultPath :: string
  getActiveFile :: "ActiveFile option"
  activeEditor :: "ActiveEditor option"

definition emptyContext :: "string \<Rightarrow> ParameterContext" where
  "emptyContext vp =
     \<lparr>activeNote = None, activeNotePath = None, activeNoteContent = None,
      selectedText = None, currentDirectory = None, vaultPath = Some vp,
      currentLine = None, currentLineNumber = None, cursorPosition = None,
      prompts = None\<rparr>"

definition withActiveFile :: "ActiveFile option \<Rightarrow> ParameterContext \<Rightarrow> ParameterContext" where
  "withActiveFile af ctx =
     (case af of
        None \<Rightarrow> ctx
      | Some f \<Rightarrow>
          ctx\<lparr>activeNote := Some (file_basename f),
              activeNotePath := Some (file_path f),
              currentDirectory := Some (or_else (file_parent f) []),
              activeNoteContent :=
                Some (case file_read f of Some content \<Rightarrow> content | None \<Rightarrow> [])\<rparr>)"

definition withEditor :: "ActiveEditor option \<Rightarrow> ParameterContext \<Rightarrow> ParameterContext" where
  "withEditor ed ctx =
     (case ed of
        None \<Rightarrow> ctx
      | Some editor \<Rightarrow>
          (let selection = getSelection editor;
               ctx1 = (if selection \<noteq> [] then ctx\<lparr>selectedText := Some selection\<rparr> else ctx);
               cursor = getCursor editor
           in ctx1\<lparr>cursorPosition := Some cursor,
                   currentLineNumber := Some (line cursor + 1),
                   currentLine := Some (getLine editor (line cursor))\<rparr>))"

definition getParameterContext :: "Host \<Rightarrow> ParameterContext" where
  "getParameterContext h =
     withEditor (activeEditor h) (withActiveFile (getActiveFile h) (emptyContext (host_vaultPath h)))"

section \<open>Placeholder substitution engine\<close>

subsection \<open>Escaping\<close>

text \<open>The class \<open>\\w\<close> of a regular expression without the unicode flag.\<close>

definition is_word_char :: "char \<Rightarrow> bool" where
  "is_word_char c = (is_upper c \<or> is_lower c \<or> is_digit c \<or> c = CHR ''_'')"

text \<open>The test \<open>/[^\\w\\-./]/.test(arg)\<close>: some character is outside the class.\<close>

definition needs_quoting :: "string \<Rightarrow> bool" where
  "needs_quoting arg =
     list_ex (\<lambda>c. \<not> (is_word_char c \<or> c = CHR ''-'' \<or> c = CHR ''.'' \<or> c = CHR ''/'')) arg"

text \<open>\<open>arg.replace(/"/g, '\\"')\<close>: a backslash before every double quote.\<close>

fun escape_quotes :: "string \<Rightarrow> string" where
  "escape_quotes [] = []"
| "escape_quotes (c # cs) =
     (if c = CHR 0x22 then CHR 0x5C # CHR 0x22 # escape_quotes cs else c # escape_quotes cs)"

text \<open>
  The escaper of the shescape library is a parameter: \<open>shescape arg = None\<close> when
  \<open>this.shescape.escape(arg)\<close> throws.
\<close>

definition escapeShellArgument :: "(string \<Rightarrow> string option) \<Rightarrow> string \<Rightarrow> string" where
  "escapeShellArgument shescape arg =
     (if arg = [] then [CHR 0x22, CHR 0x22]
      else (case shescape arg of
              Some escaped \<Rightarrow> escaped
            | None \<Rightarrow>
                if needs_quoting arg then [CHR 0x22] @ escape_quotes arg @ [CHR 0x22]
                else arg))"

subsection \<open>Replacing with a global, case-insensitive pattern\<close>

text \<open>
  The literal pattern matches at the start of the text. With the flag \<open>i\<close> two code
  units match when their canonical forms are equal.
\<close>

fun matches_at :: "js_runtime \<Rightarrow> string \<Rightarrow> string \<Rightarrow> bool" where
  "matches_at rt [] s = True"
| "matches_at rt (p # ps) [] = False"
| "matches_at rt (p # ps) (c # cs) =
     (canonicalize rt p = canonicalize rt c \<and> matches_at rt ps cs)"

text \<open>
  \<open>GetSubstitution\<close> of the language definition, for a pattern without capture groups:
  in the replacement text, \<open>$$\<close> stands for a dollar sign, \<open>$&\<close> for the matched text,
  dollar-backquote for the text before the match and dollar-apostrophe for the text after
  it; any other dollar sign stands for itself.
\<close>

fun GetSubstitution :: "string \<Rightarrow> string \<Rightarrow> string \<Rightarrow> string \<Rightarrow> string" where
  "GetSubstitution matched pre post [] = []"
| "GetSubstitution matched pre post [c] = [c]"
| "GetSubstitution matched pre post (c # d # r) =
     (if c = CHR ''$'' then
        (if d = CHR ''$'' then CHR ''$'' # GetSubstitution matched pre post r
         else if d = CHR ''&'' then matched @ GetSubstitution matched pre post r
         else if d = CHR 0x60 then pre @ GetSubstitution matched pre post r
         else if d = CHR 0x27 then post @ GetSubstitution matched pre post r
         else c # GetSubstitution matched pre post (d # r))
      else c # GetSubstitution matched pre post (d # r))"

text \<open>
  \<open>str.replace(regex, replacement)\<close> for a literal pattern with the flags \<open>gi\<close>: the
  matches are found from left to right without overlap, and each is replaced by the
  expansion of the replacement text. \<open>pre\<close> is the part of \<open>str\<close> already passed.
\<close>

fun replace_from :: "js_runtime \<Rightarrow> string \<Rightarrow> string \<Rightarrow> string \<Rightarrow> string \<Rightarrow> string" where
  "replace_from rt pat repl pre [] = []"
| "replace_from rt pat repl pre (c # cs) =
     (if pat \<noteq> [] \<and> matches_at rt pat (c # cs) then
        GetSubstitution (take (length pat) (c # cs)) pre (drop (length pat - 1) cs) repl
          @ replace_from rt pat repl (pre @ take (length pat) (c # cs)) (drop (length pat - 1) cs)
      else c # replace_from rt pat repl (pre @ [c]) cs)"

definition replace_gi :: "js_runtime \<Rightarrow> string \<Rightarrow> string \<Rightarrow> string \<Rightarrow> string" where
  "replace_gi rt pat repl str = replace_from rt pat repl [] str"

subsection \<open>The substitution table\<close>

definition digit_char :: "nat \<Rightarrow> char" where
  "digit_char d = ''0123456789'' ! d"

text \<open>\<open>n.toString()\<close> of a non-negative integer: its decimal digits.\<close>

fun toString :: "nat \<Rightarrow> string" where
  "toString n = (if n < 10 then [digit_char n] else toString (n div 10) @ [digit_char (n mod 10)])"

definition fixed_substitutions :: "ParameterContext \<Rightarrow> (string \<times> string) list" where
  "fixed_substitutions ctx =
     [(''{activenote}'', or_else (activeNote ctx) []),
      (''{activenotepath}'', or_else (activeNotePath ctx) []),
      (''{activenotecontent}'', or_else (activeNoteContent ctx) []),
      (''{selectedtext}'', or_else (selectedText ctx) []),
      (''{currentdir}'', or_else (currentDirectory ctx) []),
      (''{vaultpath}'', or_else (vaultPath ctx) []),
      (''{currentline}'', or_else (currentLine ctx) []),
      (''{currentlinenumber}'', or_else (map_option toString (currentLineNumber ctx)) []),
      (''{cursorline}'', or_else (map_option (\<lambda>p. toString (line p)) (cursorPosition ctx)) []),
      (''{cursorcolumn}'', or_else (map_option (\<lambda>p. toString (ch p)) (cursorPosition ctx)) [])]"

definition prompt_placeholder :: "js_runtime \<Rightarrow> string \<Rightarrow> string" where
  "prompt_placeholder rt keyword = ''{prompt:'' @ js_toLowerCase rt keyword @ ''}''"

text \<open>
  Assigning to a key of the table keeps the key's place when it is already there and
  appends it otherwise, which is the order \<open>Object.entries\<close> follows.
\<close>

fun add_prompts ::
  "js_runtime \<Rightarrow> (string \<times> string) list \<Rightarrow> (string \<times> string) list \<Rightarrow> (string \<times> string) list" where
  "add_prompts rt tab [] = tab"
| "add_prompts rt tab ((keyword, v) # ps) =
     add_prompts rt (AList.update (prompt_placeholder rt keyword) v tab) ps"

definition substitutions :: "js_runtime \<Rightarrow> ParameterContext \<Rightarrow> (string \<times> string) list" where
  "substitutions rt ctx =
     (case prompts ctx of
        None \<Rightarrow> fixed_substitutions ctx
      | Some ps \<Rightarrow> add_prompts rt (fixed_substitutions ctx) ps)"

subsection \<open>Substitution\<close>

text \<open>
  The source of the regular expression of a placeholder:
  \<open>placeholder.replace(/[{}]/g, '\\$&')\<close> puts a backslash before each brace, and before
  nothing else.
\<close>

fun regex_source :: "string \<Rightarrow> string" where
  "regex_source [] = []"
| "regex_source (c # cs) =
     (if c = CHR ''{'' \<or> c = CHR ''}'' then CHR 0x5C # c # regex_source cs
      else c # regex_source cs)"

text \<open>
  A placeholder without a syntax character of regular expressions (other than its braces,
  which the source escapes) compiles into a literal pattern, and replacing with it is
  \<open>replace_gi\<close>. A placeholder with one (it can only come from a prompt keyword) is
  compiled by the runtime: the pattern may match other text than the placeholder, or the
  constructor may throw.
\<close>

definition regex_syntax_char :: "char \<Rightarrow> bool" where
  "regex_syntax_char c = (c \<in> set ''^$.*+?()[]|'' \<or> c = CHR 0x5C)"

definition regex_literal :: "string \<Rightarrow> bool" where
  "regex_literal ph = (\<not> list_ex regex_syntax_char ph)"

definition replace_placeholder :: "js_runtime \<Rightarrow> string \<Rightarrow> string \<Rightarrow> string \<Rightarrow> string option" where
  "replace_placeholder rt placeholder repl str =
     (if regex_literal placeholder then Some (replace_gi rt placeholder repl str)
      else (case js_replace rt (regex_source placeholder) of
              None \<Rightarrow> None
            | Some replace \<Rightarrow> Some (replace str repl)))"

text \<open>What \<open>substituteParameters\<close> throws: the error of the \<open>RegExp\<close> constructor.\<close>

datatype subst_failure = SyntaxError string

fun substitute_each ::
  "js_runtime \<Rightarrow> (string \<Rightarrow> string option) \<Rightarrow> (string \<times> string) list \<Rightarrow> string \<Rightarrow> subst_failure + string" where
  "substitute_each rt shescape [] substituted = Inr substituted"
| "substitute_each rt shescape ((placeholder, v) # rest) substituted =
     (case replace_placeholder rt placeholder (escapeShellArgument shescape v) substituted of
        Some replaced \<Rightarrow> substitute_each rt shescape rest replaced
      | None \<Rightarrow> Inl (SyntaxError (regex_source placeholder)))"

definition substituteParameters ::
  "js_runtime \<Rightarrow> (string \<Rightarrow> string option) \<Rightarrow> string \<Rightarrow> ParameterContext \<Rightarrow> subst_failure + string" where
  "substituteParameters rt shescape cmd ctx = substitute_each rt shescape (substitutions rt ctx) cmd"

section \<open>Process execution engine\<close>

text \<open>
  The local variable \<open>workingDir\<close> of \<open>executeCommand\<close> and of \<open>executeInTerminal\<close>.
  \<open>path.join\<close> of the platform is the parameter \<open>join\<close>.
\<close>

definition workingDir ::
  "PluginSettings \<Rightarrow> process_env \<Rightarrow> (string \<Rightarrow> string \<Rightarrow> string) \<Rightarrow> CommandScript \<Rightarrow> ParameterContext \<Rightarrow> string" where
  "workingDir st p join script ctx =
     (let base = (if defaultWorkingDirectory st \<noteq> [] then defaultWorkingDirectory st
                  else or_else (vaultPath ctx) (cwd p))
      in (case workingDirectory script of
            None \<Rightarrow> base
          | Some wd \<Rightarrow>
              if wd = [] then base
              else if useAbsolutePath script = Some True then wd
              else join base wd))"

text \<open>
  What the engine does, in the order it does it. The texts of the notifications are kept
  apart by a constructor each, with the parts the source puts in. \<open>CreateResult\<close> marks
  the construction of a result object (the object literals of \<open>executeCommand\<close>); it
  does nothing to the outside and is there so that the results built can be counted.
\<close>

datatype invocation =
    ExecFile string "string list" string nat
  | Exec string string string nat
  | SpawnDetached string "string list" string

datatype notice =
    RunningInBackground string
  | Executing string
  | CompletedBackground string string
  | Completed string
  | FailedBackground string string
  | ExecutionFailed string string
  | ExecutingIn string string
  | ShellExecutionFailed "string option"
  | CommandExecutionFailed

datatype effect =
    Notice notice
  | Launch invocation
  | PerformAction string CommandExecutionResult
  | OpenResultModal CommandExecutionResult string
  | OpenPromptModal string "PromptConfig list"
  | CreateResult CommandExecutionResult

text \<open>A thrown value, with the properties the handlers read.\<close>

record js_error =
  err_stdout :: "string option"
  err_stderr :: "string option"
  err_message :: "string option"
  err_code :: "js_code option"

text \<open>How the awaited child process ends: the promise is fulfilled or rejected.\<close>

datatype exec_outcome = Fulfilled string string | Rejected js_error

definition code_truthy :: "js_code option \<Rightarrow> bool" where
  "code_truthy c =
     (case c of None \<Rightarrow> False | Some (CodeNum n) \<Rightarrow> n \<noteq> 0 | Some (CodeStr s) \<Rightarrow> s \<noteq> [])"

definition preview :: "string \<Rightarrow> string" where
  "preview s = (if length s > 100 then take 100 s @ ''...'' else s)"

definition isBackground :: "CommandScript \<Rightarrow> bool" where
  "isBackground script = (backgroundExecution script = Some True)"

definition notify :: "PluginSettings \<Rightarrow> notice \<Rightarrow> effect list" where
  "notify st n = (if showNotifications st then [Notice n] else [])"

definition foreground_invocation ::
  "PluginSettings \<Rightarrow> process_env \<Rightarrow> string \<Rightarrow> string \<Rightarrow> invocation" where
  "foreground_invocation st p wd substitutedCommand =
     (case getShellWithLoginFlag st p of
        [] \<Rightarrow> Exec substitutedCommand [] wd (maxOutputLength st)
      | shell # flags \<Rightarrow>
          if flags \<noteq> [] then ExecFile shell (flags @ [''-c'', substitutedCommand]) wd (maxOutputLength st)
          else Exec substitutedCommand shell wd (maxOutputLength st))"

text \<open>
  The \<open>try\<close> block of \<open>executeCommand\<close>: the effects so far, and the value it returns
  (\<open>Inr\<close>) or throws (\<open>Inl\<close>). \<open>outcome\<close> is how the child process has ended: the block
  awaits it, and goes on only then. \<open>action_throws\<close> is what \<open>performAction\<close> throws, if
  it does.
\<close>

definition executeCommand_try ::
  "PluginSettings \<Rightarrow> process_env \<Rightarrow> (string \<Rightarrow> string \<Rightarrow> string) \<Rightarrow> exec_outcome \<Rightarrow> js_error option \<Rightarrow>
   CommandScript \<Rightarrow> string \<Rightarrow> ParameterContext \<Rightarrow> effect list \<times> (js_error + CommandExecutionResult)" where
  "executeCommand_try st p join outcome action_throws script substitutedCommand ctx =
     (let wd = workingDir st p join script ctx;
          started = notify st (if isBackground script then RunningInBackground (name script)
                               else Executing (name script))
                    @ [Launch (foreground_invocation st p wd substitutedCommand)]
      in (case outcome of
            Rejected e \<Rightarrow> (started, Inl e)
          | Fulfilled out err \<Rightarrow>
              (let executionResult =
                     \<lparr>success = True, output_text = out, error = err, exitCode = CodeNum 0,
                      command = substitutedCommand, originalCommand = script_command script,
                      parameters = ctx\<rparr>;
                   done = started @ [CreateResult executionResult]
                          @ notify st (if isBackground script
                                       then CompletedBackground (name script) (preview out)
                                       else Completed (name script))
               in if \<not> isBackground script then
                    (case defaultAction script of
                       None \<Rightarrow> (done @ [OpenResultModal executionResult (name script)], Inr executionResult)
                     | Some action \<Rightarrow>
                         if action \<noteq> [] \<and> action \<noteq> ''none'' then
                           (case action_throws of
                              None \<Rightarrow> (done @ [PerformAction action executionResult], Inr executionResult)
                            | Some e \<Rightarrow> (done @ [PerformAction action executionResult], Inl e))
                         else (done @ [OpenResultModal executionResult (name script)], Inr executionResult))
                  else (done, Inr executionResult))))"

text \<open>The \<open>catch\<close> block of \<open>executeCommand\<close>.\<close>

definition executeCommand_catch ::
  "PluginSettings \<Rightarrow> CommandScript \<Rightarrow> string \<Rightarrow> ParameterContext \<Rightarrow> js_error \<Rightarrow>
   effect list \<times> (js_error + CommandExecutionResult)" where
  "executeCommand_catch st script substitutedCommand ctx e =
     (let executionResult =
            \<lparr>success = False,
             output_text = or_else (err_stdout e) [],
             error = (if truthy (err_stderr e) then or_else (err_stderr e) []
                      else or_else (err_message e) ''An unknown error occurred.''),
             exitCode = (if code_truthy (err_code e) then (case err_code e of Some c \<Rightarrow> c | None \<Rightarrow> CodeNum (- 1))
                         else CodeNum (- 1)),
             command = substitutedCommand, originalCommand = script_command script,
             parameters = ctx\<rparr>
      in ([CreateResult executionResult]
          @ notify st (if isBackground script
                     then FailedBackground (name script) (preview (error executionResult))
                     else ExecutionFailed (name script) (error executionResult))
          @ (if \<not> isBackground script then [OpenResultModal executionResult (name script)] else []),
          Inr executionResult))"

text \<open>\<open>try { body } catch (error) { handler }\<close>, with the effects of both.\<close>

definition try_catch ::
  "effect list \<times> (js_error + 'a) \<Rightarrow> (js_error \<Rightarrow> effect list \<times> (js_error + 'a)) \<Rightarrow> effect list \<times> (js_error + 'a)" where
  "try_catch body handler =
     (case snd body of
        Inr v \<Rightarrow> body
      | Inl e \<Rightarrow> (fst body @ fst (handler e), snd (handler e)))"

definition executeCommand ::
  "PluginSettings \<Rightarrow> process_env \<Rightarrow> (string \<Rightarrow> string \<Rightarrow> string) \<Rightarrow> exec_outcome \<Rightarrow> js_error option \<Rightarrow>
   CommandScript \<Rightarrow> string \<Rightarrow> ParameterContext \<Rightarrow> effect list \<times> (js_error + CommandExecutionResult)" where
  "executeCommand st p join outcome action_throws script substitutedCommand ctx =
     try_catch (executeCommand_try st p join outcome action_throws script substitutedCommand ctx)
               (executeCommand_catch st script substitutedCommand ctx)"

subsection \<open>Detached execution\<close>

text \<open>\<open>s.includes(sub)\<close>.\<close>

fun includes_str :: "string \<Rightarrow> string \<Rightarrow> bool" where
  "includes_str [] sub = (sub = [])"
| "includes_str (c # cs) sub = (take (length sub) (c # cs) = sub \<or> includes_str cs sub)"

text \<open>
  \<open>spawn\<close> either throws at once, or returns a child that may later emit an
  \<open>error\<close> event.
\<close>

datatype spawn_outcome = SpawnThrows js_error | Spawned "js_error option"

definition detached_invocation ::
  "PluginSettings \<Rightarrow> process_env \<Rightarrow> string \<Rightarrow> string \<Rightarrow> invocation" where
  "detached_invocation st p wd substitutedCommand =
     (case getShellWithLoginFlag st p of
        [] \<Rightarrow> SpawnDetached [] [''-c'', substitutedCommand] wd
      | selectedShell # flags \<Rightarrow>
          if platform p = ''win32'' then
            (if includes_str selectedShell ''powershell''
             then SpawnDetached ''powershell.exe'' [''-Command'', substitutedCommand] wd
             else SpawnDetached ''cmd.exe'' [''/c'', substitutedCommand] wd)
          else SpawnDetached selectedShell (flags @ [''-c'', substitutedCommand]) wd)"

definition executeInTerminal_try ::
  "PluginSettings \<Rightarrow> process_env \<Rightarrow> (string \<Rightarrow> string \<Rightarrow> string) \<Rightarrow> spawn_outcome \<Rightarrow>
   CommandScript \<Rightarrow> string \<Rightarrow> ParameterContext \<Rightarrow> effect list \<times> (js_error + unit)" where
  "executeInTerminal_try st p join outcome script substitutedCommand ctx =
     (let wd = workingDir st p join script ctx;
          started = notify st (ExecutingIn (getShellDisplayName st p) (name script))
                    @ [Launch (detached_invocation st p wd substitutedCommand)]
      in (case outcome of
            SpawnThrows e \<Rightarrow> (started, Inl e)
          | Spawned None \<Rightarrow> (started, Inr ())
          | Spawned (Some e) \<Rightarrow> (started @ [Notice (ShellExecutionFailed (err_message e))], Inr ())))"

text \<open>The handler shows a notification and throws the error again.\<close>

definition executeInTerminal_catch :: "js_error \<Rightarrow> effect list \<times> (js_error + unit)" where
  "executeInTerminal_catch e = ([Notice (ShellExecutionFailed (err_message e))], Inl e)"

definition executeInTerminal ::
  "PluginSettings \<Rightarrow> process_env \<Rightarrow> (string \<Rightarrow> string \<Rightarrow> string) \<Rightarrow> spawn_outcome \<Rightarrow>
   CommandScript \<Rightarrow> string \<Rightarrow> ParameterContext \<Rightarrow> effect list \<times> (js_error + unit)" where
  "executeInTerminal st p join outcome script substitutedCommand ctx =
     try_catch (executeInTerminal_try st p join outcome script substitutedCommand ctx)
               executeInTerminal_catch"

section \<open>Running a user command\<close>

text \<open>
  The two callers (\<open>executeUserCommand\<close> of the plugin and \<open>executeCommand\<close> of the
  command selector) are the same code: substitute, then await \<open>executeCommand\<close>; whatever
  is thrown is shown as a notification. The value is the effects and the result the awaited
  call returned, if the callers got one.
\<close>

definition substitute_and_execute ::
  "js_runtime \<Rightarrow> PluginSettings \<Rightarrow> process_env \<Rightarrow> (string \<Rightarrow> string \<Rightarrow> string) \<Rightarrow>
   (string \<Rightarrow> string option) \<Rightarrow> exec_outcome \<Rightarrow> js_error option \<Rightarrow> CommandScript \<Rightarrow> ParameterContext \<Rightarrow>
   effect list \<times> CommandExecutionResult option" where
  "substitute_and_execute rt st p join shescape outcome action_throws script ctx =
     (case substituteParameters rt shescape (script_command script) ctx of
        Inl failure \<Rightarrow> ([Notice CommandExecutionFailed], None)
      | Inr substitutedCommand \<Rightarrow>
          (let run = executeCommand st p join outcome action_throws script substitutedCommand ctx
           in (case snd run of
                 Inr r \<Rightarrow> (fst run, Some r)
               | Inl e \<Rightarrow> (fst run @ [Notice CommandExecutionFailed], None))))"

text \<open>
  \<open>submitted\<close> is what the prompt dialog passes to its callback, \<open>None\<close> when the dialog
  is closed without submitting.
\<close>

definition executeUserCommand ::
  "js_runtime \<Rightarrow> PluginSettings \<Rightarrow> process_env \<Rightarrow> (string \<Rightarrow> string \<Rightarrow> string) \<Rightarrow>
   (string \<Rightarrow> string option) \<Rightarrow> exec_outcome \<Rightarrow> js_error option \<Rightarrow> Host \<Rightarrow>
   (string \<times> string) list option \<Rightarrow> CommandScript \<Rightarrow>
   effect list \<times> CommandExecutionResult option" where
  "executeUserCommand rt st p join shescape outcome action_throws host submitted script =
     (let ctx = getParameterContext host in
      (case script_prompts script of
         None \<Rightarrow> substitute_and_execute rt st p join shescape outcome action_throws script ctx
       | Some ps \<Rightarrow>
           if length ps > 0 then
             (case submitted of
                None \<Rightarrow> ([OpenPromptModal (name script) ps], None)
              | Some promptResults \<Rightarrow>
                  (let run = substitute_and_execute rt st p join shescape outcome action_throws script
                               (ctx\<lparr>prompts := Some promptResults\<rparr>)
                   in (OpenPromptModal (name script) ps # fst run, snd run)))
           else substitute_and_execute rt st p join shescape outcome action_throws script ctx))"

section \<open>Specifications the claims are compared with\<close>

text \<open>
  Single-pass substitution, as the specification words it: the template is read once from
  left to right; where a placeholder of the table matches, the escaped value is written
  and the reading goes on behind the placeholder; the text written is never read again.
\<close>

fun find_placeholder ::
  "js_runtime \<Rightarrow> (string \<times> string) list \<Rightarrow> string \<Rightarrow> (string \<times> string) option" where
  "find_placeholder rt [] s = None"
| "find_placeholder rt ((ph, v) # tab) s =
     (if ph \<noteq> [] \<and> matches_at rt ph s then Some (ph, v) else find_placeholder rt tab s)"

fun single_pass ::
  "js_runtime \<Rightarrow> (string \<Rightarrow> string option) \<Rightarrow> (string \<times> string) list \<Rightarrow> string \<Rightarrow> string" where
  "single_pass rt shescape tab [] = []"
| "single_pass rt shescape tab (c # cs) =
     (case find_placeholder rt tab (c # cs) of
        Some (ph, v) \<Rightarrow>
          escapeShellArgument shescape v @ single_pass rt shescape tab (drop (length ph - 1) cs)
      | None \<Rightarrow> c # single_pass rt shescape tab cs)"

text \<open>A text without braces; a placeholder \<open>{body}\<close> whose body is without braces.\<close>

definition brace_free :: "string \<Rightarrow> bool" where
  "brace_free s = (CHR ''{'' \<notin> set s \<and> CHR ''}'' \<notin> set s)"

definition braced :: "string \<Rightarrow> bool" where
  "braced ph =
     (case ph of
        [] \<Rightarrow> False
      | c # r \<Rightarrow> c = CHR ''{'' \<and> r \<noteq> [] \<and> last r = CHR ''}'' \<and> brace_free (butlast r))"

text \<open>
  What every key of the substitution table is, when the prompt placeholders are free of
  the syntax characters: a literal pattern without the letters A-Z that opens with a brace
  and has a closing brace.
\<close>

definition key_ok :: "string \<Rightarrow> bool" where
  "key_ok ph = (regex_literal ph \<and> (\<exists>x. ph = CHR ''{'' # x) \<and> CHR ''}'' \<in> set ph \<and> ascii_lower ph = ph)"

text \<open>
  A replacement text without a dollar pattern: no dollar sign is followed by a dollar
  sign, an ampersand, a backquote or an apostrophe.
\<close>

fun dollar_pattern_free :: "string \<Rightarrow> bool" where
  "dollar_pattern_free [] = True"
| "dollar_pattern_free [c] = True"
| "dollar_pattern_free (c # d # r) =
     (\<not> (c = CHR ''$'' \<and> (d = CHR ''$'' \<or> d = CHR ''&'' \<or> d = CHR 0x60 \<or> d = CHR 0x27))
      \<and> dollar_pattern_free (d # r))"

text \<open>The literal pattern matches somewhere in the text.\<close>

fun occurs :: "js_runtime \<Rightarrow> string \<Rightarrow> string \<Rightarrow> bool" where
  "occurs rt pat [] = False"
| "occurs rt pat (c # cs) = ((pat \<noteq> [] \<and> matches_at rt pat (c # cs)) \<or> occurs rt pat cs)"

text \<open>The keys the table lists after the first entry of a key, in the order of the table.\<close>

fun keys_after :: "string \<Rightarrow> (string \<times> string) list \<Rightarrow> string list" where
  "keys_after k [] = []"
| "keys_after k ((ph, v) # tab) = (if ph = k then map fst tab else keys_after k tab)"

text \<open>The results built during an execution, in the order they are built.\<close>

fun results_created :: "effect list \<Rightarrow> CommandExecutionResult list" where
  "results_created [] = []"
| "results_created (CreateResult r # fx) = r # results_created fx"
| "results_created (x # fx) = results_created fx"

text \<open>The default action of the script is performed: it is foreground and names one.\<close>

definition runs_default_action :: "CommandScript \<Rightarrow> bool" where
  "runs_default_action script =
     (\<not> isBackground script \<and> truthy (defaultAction script) \<and> defaultAction script \<noteq> Some ''none'')"

text \<open>
  The fallback of the escaping function as the specification words it: only
  alphanumerics, hyphen, dot and slash are left alone.
\<close>

definition spec_safe_chars :: "char set" where
  "spec_safe_chars =
     set ''abcdefghijklmnopqrstuvwxyzABCDEFGHIJKLMNOPQRSTUVWXYZ0123456789-./''"

definition spec_fallback_escape :: "string \<Rightarrow> string" where
  "spec_fallback_escape arg =
     (if set arg \<subseteq> spec_safe_chars then arg
      else [CHR 0x22] @ escape_quotes arg @ [CHR 0x22])"

text \<open>The decimal number a string of digits stands for.\<close>

definition digit_value :: "char \<Rightarrow> nat" where
  "digit_value c = (of_char c :: nat) - 48"

definition parse_decimal :: "string \<Rightarrow> nat" where
  "parse_decimal s = foldl (\<lambda>acc c. 10 * acc + digit_value c) 0 s"

section \<open>Example data\<close>

text \<open>The default settings of the plugin and its second example command.\<close>

definition DEFAULT_SETTINGS :: PluginSettings where
  "DEFAULT_SETTINGS =
     \<lparr>defaultWorkingDirectory = [], showNotifications = True, maxOutputLength = 10000,
      shellProgram = ''auto'', useLoginShell = False\<rparr>"

definition example_ls_vault :: CommandScript where
  "example_ls_vault =
     \<lparr>script_id = ''example-ls-vault'', name = ''List vault contents'',
      description = Some ''Lists all files in the vault root directory'',
      script_command = ''ls -la '' @ [CHR 0x22] @ ''{vaultpath}'' @ [CHR 0x22],
      workingDirectory = None, useAbsolutePath = Some False,
      backgroundExecution = Some False, script_prompts = Some [],
      defaultAction = Some ''none'', enabled = True\<rparr>"

definition example_env :: process_env where
  "example_env =
     \<lparr>platform = ''linux'', env_COMSPEC = None, env_SHELL = Some ''/bin/zsh'',
      cwd = ''/home/me''\<rparr>"

definition example_join :: "string \<Rightarrow> string \<Rightarrow> string" where
  "example_join a b = a @ ''/'' @ b"

definition example_host :: Host where
  "example_host =
     \<lparr>host_vaultPath = ''/Users/me/Vault'',
      getActiveFile = Some \<lparr>file_basename = ''todo'', file_path = ''notes/todo.md'',
                             file_parent = Some ''notes'', file_read = Some ''buy milk''\<rparr>,
      activeEditor = Some \<lparr>getSelection = ''milk'', getCursor = \<lparr>line = 4, ch = 2\<rparr>,
                             getLine = (\<lambda>n. ''buy milk'')\<rparr>\<rparr>"

definition example_error :: js_error where
  "example_error =
     \<lparr>err_stdout = None, err_stderr = None,
      err_message = Some ''The argument must be a string without null bytes'',
      err_code = Some (CodeStr ''ERR_INVALID_ARG_VALUE'')\<rparr>"

text \<open>A process that exits with code 2, and the command the example substitutes to.\<close>

definition example_exit_error :: js_error where
  "example_exit_error =
     \<lparr>err_stdout = Some [], err_stderr = Some ''ls: cannot access'',
      err_message = Some ''Command failed: ls'', err_code = Some (CodeNum 2)\<rparr>"

definition example_command :: string where
  "example_command = ''ls -la '' @ [CHR 0x22] @ ''/Users/me/Vault'' @ [CHR 0x22]"

text \<open>
  The error of a process that could not be started: the system error name is its code.
\<close>

definition example_launch_error :: js_error where
  "example_launch_error =
     \<lparr>err_stdout = Some [], err_stderr = Some [],
      err_message = Some ''spawn /bin/zsh ENOENT'', err_code = Some (CodeStr ''ENOENT'')\<rparr>"

text \<open>
  A runtime for the examples: the case mappings are the ASCII ones, and the constructor of
  regular expressions refuses every source. The one source the examples hand to it is
  that of the prompt keyword made of an opening parenthesis, which the language refuses
  as a group without an end.
\<close>

definition example_runtime :: js_runtime where
  "example_runtime =
     \<lparr>js_toLowerCase = ascii_lower, js_toUpperCase = ascii_upper,
      canonicalize = ascii_upper_char, js_replace = (\<lambda>source. None)\<rparr>"

text \<open>
  The same runtime, but upper-casing the letter sharp s (the code unit \<open>0xDF\<close>) into
  \<open>SS\<close>, as the language does. The language lower-cases the letter into itself and,
  its upper-case form being two code units, takes the letter as its own canonical form.
\<close>

definition example_sharp_s_runtime :: js_runtime where
  "example_sharp_s_runtime =
     example_runtime
       \<lparr>js_toUpperCase :=
          (\<lambda>s. concat (map (\<lambda>c. if c = CHR 0xDF then ''SS'' else [ascii_upper_char c]) s))\<rparr>"

text \<open>An escaper that always throws, so that the fallback of the source is taken.\<close>

definition shescape_throws :: "string \<Rightarrow> string option" where
  "shescape_throws arg = None"

text \<open>
  An escaper that does not throw and returns its argument as it is, which is what an
  escaper does to a word of letters and digits.
\<close>

definition shescape_plain :: "string \<Rightarrow> string option" where
  "shescape_plain arg = Some arg"

text \<open>
  An escaper in the manner of one for a POSIX shell: a backslash before each character
  that is special to the shell, the opening brace among them.
\<close>

definition shell_special :: "char \<Rightarrow> bool" where
  "shell_special c =
     (c \<in> set ''$&()*;<>?{| '' \<or> c = CHR 0x5C \<or> c = CHR 0x22 \<or> c = CHR 0x27 \<or> c = CHR 0x60)"

definition shescape_backslash :: "string \<Rightarrow> string option" where
  "shescape_backslash arg =
     Some (concat (map (\<lambda>c. if shell_special c then [CHR 0x5C, c] else [c]) arg))"

text \<open>
  The editor of a note whose first line reads \<open>{currentline}\<close> and whose second line
  reads \<open>;id\<close>. The first line is selected up to the start of the second, where the
  cursor stands: the selected text is the first line with its line feed, and the current
  line is the second.
\<close>

definition example_hostile_host :: Host where
  "example_hostile_host =
     \<lparr>host_vaultPath = ''/Users/me/Vault'',
      getActiveFile = Some \<lparr>file_basename = ''inbox'', file_path = ''inbox.md'',
                             file_parent = None,
                             file_read = Some (''{currentline}'' @ [CHR 0x0A] @ '';id'')\<rparr>,
      activeEditor = Some \<lparr>getSelection = ''{currentline}'' @ [CHR 0x0A],
                             getCursor = \<lparr>line = 1, ch = 0\<rparr>,
                             getLine = (\<lambda>n. if n = 0 then ''{currentline}'' else '';id'')\<rparr>\<rparr>"

text \<open>A context with a prompt value merged in.\<close>

definition example_prompt_context :: ParameterContext where
  "example_prompt_context =
     (getParameterContext example_host)\<lparr>prompts := Some [(''Name'', ''$HOME'')]\<rparr>"

text \<open>
  An effect that is a transient notification or the launch of the process itself, and one
  that only builds a result object.
\<close>

definition transient :: "effect \<Rightarrow> bool" where
  "transient x = (case x of Notice n \<Rightarrow> True | Launch i \<Rightarrow> True | _ \<Rightarrow> False)"

definition builds_result :: "effect \<Rightarrow> bool" where
  "builds_result x = (case x of CreateResult r \<Rightarrow> True | _ \<Rightarrow> False)"

section \<open>Properties of the shell resolver\<close>

lemma split_not_Nil: "split sep s \<noteq> []"
  by (induction s) (auto split: list.splits)

lemma split_no_sep: "sep \<notin> set s \<Longrightarrow> split sep s = [s]"
  by (induction s) auto

lemma split_tl_Nil: "(tl (split sep s) = []) = (sep \<notin> set s)"
  by (induction s) (auto split: list.splits simp: split_not_Nil)

lemma last_split: "last (split sep s) = rev (takeWhile (\<lambda>c. c \<noteq> sep) (rev s))"
proof (induction s)
  case Nil
  then show ?case by simp
next
  case (Cons c cs)
  show ?case
  proof (cases "c = sep")
    case True
    then show ?thesis using Cons split_not_Nil[of sep cs]
      by (auto simp: takeWhile_append)
  next
    case False
    obtain x xs where sp: "split sep cs = x # xs"
      using split_not_Nil[of sep cs] by (cases "split sep cs") auto
    show ?thesis
    proof (cases "sep \<in> set cs")
      case True
      then have "xs \<noteq> []" using split_tl_Nil[of sep cs] sp by auto
      then show ?thesis using False True Cons sp by (auto simp: takeWhile_append)
    next
      case nin: False
      then have "split sep cs = [cs]" by (rule split_no_sep)
      then show ?thesis using False nin by (auto simp: takeWhile_append)
    qed
  qed
qed

lemma pop_split: "pop (split CHR ''/'' s) = Some (path_basename s)"
  by (simp add: pop_def split_not_Nil last_split path_basename_def)

lemma Nil_notin_supported: "[] \<notin> set supportedShells"
  by (simp add: supportedShells_def)

lemma slash_notin_supported: "x \<in> set supportedShells \<Longrightarrow> CHR ''/'' \<notin> set x"
  by (auto simp: supportedShells_def)

lemma path_basename_slash_free: "CHR ''/'' \<notin> set (path_basename s)"
proof -
  have "\<forall>c \<in> set (takeWhile (\<lambda>c. c \<noteq> CHR ''/'') (rev s)). c \<noteq> CHR ''/''"
    by (auto dest: set_takeWhileD)
  then show ?thesis by (auto simp: path_basename_def)
qed

lemma path_basename_Nil_cases: "path_basename s = [] \<Longrightarrow> s = [] \<or> last s = CHR ''/''"
  by (cases s rule: rev_cases) (auto simp: path_basename_def split: if_splits)

lemma shellName_supported:
  "(or_else (pop (split CHR ''/'' s)) s \<in> set supportedShells) = (path_basename s \<in> set supportedShells)"
proof (cases "path_basename s = []")
  case True
  then have "s = [] \<or> last s = CHR ''/''" by (rule path_basename_Nil_cases)
  then have "s \<notin> set supportedShells"
  proof
    assume "s = []" then show ?thesis using Nil_notin_supported by simp
  next
    assume l: "last s = CHR ''/''"
    show ?thesis
    proof
      assume "s \<in> set supportedShells"
      then have "CHR ''/'' \<notin> set s" "s \<noteq> []" using slash_notin_supported Nil_notin_supported by auto
      then show False using l last_in_set by metis
    qed
  qed
  then show ?thesis using True Nil_notin_supported by (simp add: pop_split or_else_def)
next
  case False
  then show ?thesis by (simp add: pop_split or_else_def)
qed

text \<open>
  Claim C9. \<open>detectDefaultShell\<close> is a function of the platform and the environment.
  On Windows it returns the value of COMSPEC, and \<open>cmd.exe\<close> when COMSPEC is unset (or
  set to the empty string). Elsewhere it returns the value of SHELL exactly when SHELL is
  set and its basename is one of bash, zsh, busybox, csh and dash, and \<open>/bin/bash\<close> in
  every other case.
\<close>

theorem detectDefaultShell_cases:
  "detectDefaultShell p =
     (if platform p = ''win32''
      then (case env_COMSPEC p of None \<Rightarrow> ''cmd.exe'' | Some c \<Rightarrow> if c = [] then ''cmd.exe'' else c)
      else (case env_SHELL p of
              None \<Rightarrow> ''/bin/bash''
            | Some s \<Rightarrow> if path_basename s \<in> set supportedShells then s else ''/bin/bash''))"
proof (cases "env_SHELL p")
  case None
  then show ?thesis by (simp add: detectDefaultShell_def or_else_def split: option.splits)
next
  case (Some s)
  have "s = [] \<Longrightarrow> path_basename s \<notin> set supportedShells"
    using Nil_notin_supported by (simp add: path_basename_def)
  then show ?thesis using Some shellName_supported[of s]
    by (auto simp add: detectDefaultShell_def or_else_def Let_def split: option.splits)
qed

theorem detectDefaultShell_cases_witness:
  "detectDefaultShell example_env = ''/bin/zsh''
   \<and> detectDefaultShell (example_env\<lparr>env_SHELL := Some ''/usr/bin/fish''\<rparr>) = ''/bin/bash''
   \<and> detectDefaultShell (example_env\<lparr>platform := ''win32''\<rparr>) = ''cmd.exe''"
  using detectDefaultShell_cases[of example_env]
    detectDefaultShell_cases[of "example_env\<lparr>env_SHELL := Some ''/usr/bin/fish''\<rparr>"]
    detectDefaultShell_cases[of "example_env\<lparr>platform := ''win32''\<rparr>"]
  by (simp add: example_env_def path_basename_def supportedShells_def)

section \<open>Properties of the working directory\<close>

text \<open>
  Claim C8. With \<open>base\<close> the configured default working directory if it is not empty,
  else the collected vault path if it is not empty, else the working directory of the
  process: the effective working directory is the working directory of the script as it
  is when one is given (not empty) and \<open>useAbsolutePath\<close> is set; it is
  \<open>join base workingDirectory\<close> when one is given and \<open>useAbsolutePath\<close> is not set; and
  it is \<open>base\<close> when the script gives none.
\<close>

theorem workingDir_resolution:
  "(let base = (if defaultWorkingDirectory st \<noteq> [] then defaultWorkingDirectory st
                else (case vaultPath ctx of
                        Some v \<Rightarrow> if v \<noteq> [] then v else cwd p
                      | None \<Rightarrow> cwd p))
    in (\<forall>wd. workingDirectory script = Some wd \<and> wd \<noteq> [] \<and> useAbsolutePath script = Some True
              \<longrightarrow> workingDir st p join script ctx = wd)
     \<and> (\<forall>wd. workingDirectory script = Some wd \<and> wd \<noteq> [] \<and> useAbsolutePath script \<noteq> Some True
              \<longrightarrow> workingDir st p join script ctx = join base wd)
     \<and> (\<not> truthy (workingDirectory script) \<longrightarrow> workingDir st p join script ctx = base))"
  by (auto simp: workingDir_def Let_def or_else_def truthy_def split: option.splits)

theorem workingDir_resolution_witness:
  "workingDir DEFAULT_SETTINGS example_env example_join
     (example_ls_vault\<lparr>workingDirectory := Some ''sub'', useAbsolutePath := Some True\<rparr>)
     (getParameterContext example_host) = ''sub''
   \<and> workingDir DEFAULT_SETTINGS example_env example_join
     (example_ls_vault\<lparr>workingDirectory := Some ''sub''\<rparr>)
     (getParameterContext example_host) = example_join ''/Users/me/Vault'' ''sub''
   \<and> workingDir DEFAULT_SETTINGS example_env example_join example_ls_vault
     (getParameterContext example_host) = ''/Users/me/Vault''"
proof -
  let ?ctx = "getParameterContext example_host"
  have v: "vaultPath ?ctx = Some ''/Users/me/Vault''"
    by (simp add: getParameterContext_def example_host_def withEditor_def withActiveFile_def
        emptyContext_def Let_def)
  have d: "defaultWorkingDirectory DEFAULT_SETTINGS = []"
    by (simp add: DEFAULT_SETTINGS_def)
  note w = workingDir_resolution[where st = DEFAULT_SETTINGS and ctx = ?ctx and p = example_env
      and join = example_join]
  have a: "workingDir DEFAULT_SETTINGS example_env example_join
     (example_ls_vault\<lparr>workingDirectory := Some ''sub'', useAbsolutePath := Some True\<rparr>) ?ctx = ''sub''"
    using w[where script = "example_ls_vault\<lparr>workingDirectory := Some ''sub'', useAbsolutePath := Some True\<rparr>"]
    by (simp add: Let_def)
  have b: "workingDir DEFAULT_SETTINGS example_env example_join
     (example_ls_vault\<lparr>workingDirectory := Some ''sub''\<rparr>) ?ctx = example_join ''/Users/me/Vault'' ''sub''"
    using w[where script = "example_ls_vault\<lparr>workingDirectory := Some ''sub''\<rparr>"] v d
    by (simp add: Let_def example_ls_vault_def)
  have c: "workingDir DEFAULT_SETTINGS example_env example_join example_ls_vault ?ctx = ''/Users/me/Vault''"
    using w[where script = example_ls_vault] v d
    by (simp add: Let_def example_ls_vault_def truthy_def)
  show ?thesis using a b c by simp
qed

section \<open>Properties of the escaping function\<close>

lemma safe_char_set:
  "(is_word_char c \<or> c = CHR ''-'' \<or> c = CHR ''.'' \<or> c = CHR ''/'') = (c \<in> insert CHR ''_'' spec_safe_chars)"
  by (cases c) (auto simp: is_word_char_def is_upper_def is_lower_def is_digit_def spec_safe_chars_def)

text \<open>
  Claim C7, as the code has it. The empty string is mapped to two double quotes. A string
  that is not empty is given to the escaper of the dialect. When that escaper throws, a
  string of alphanumerics, underscores, hyphens, dots and slashes only is returned
  unchanged, and every other string is returned between double quotes, with a backslash
  before each double quote inside.
\<close>

theorem escapeShellArgument_cases:
  "escapeShellArgument shescape [] = [CHR 0x22, CHR 0x22]
   \<and> (\<forall>r. arg \<noteq> [] \<and> shescape arg = Some r \<longrightarrow> escapeShellArgument shescape arg = r)
   \<and> (arg \<noteq> [] \<and> shescape arg = None \<and> set arg \<subseteq> insert CHR ''_'' spec_safe_chars
        \<longrightarrow> escapeShellArgument shescape arg = arg)
   \<and> (arg \<noteq> [] \<and> shescape arg = None \<and> \<not> set arg \<subseteq> insert CHR ''_'' spec_safe_chars
        \<longrightarrow> escapeShellArgument shescape arg =
            [CHR 0x22] @ concat (map (\<lambda>c. if c = CHR 0x22 then [CHR 0x5C, CHR 0x22] else [c]) arg) @ [CHR 0x22])"
proof -
  have q: "escape_quotes s = concat (map (\<lambda>c. if c = CHR 0x22 then [CHR 0x5C, CHR 0x22] else [c]) s)" for s
    by (induction s) auto
  have n: "needs_quoting arg = (\<not> set arg \<subseteq> insert CHR ''_'' spec_safe_chars)"
    unfolding needs_quoting_def list_ex_iff safe_char_set by blast
  show ?thesis
    by (simp add: escapeShellArgument_def n q)
qed

theorem escapeShellArgument_cases_witness:
  "escapeShellArgument shescape_throws [] = [CHR 0x22, CHR 0x22]
   \<and> escapeShellArgument Some ''a b'' = ''a b''
   \<and> escapeShellArgument shescape_throws ''notes/to_do-1.md'' = ''notes/to_do-1.md''
   \<and> escapeShellArgument shescape_throws (''say '' @ [CHR 0x22] @ ''hi'' @ [CHR 0x22])
       = [CHR 0x22] @ ''say '' @ [CHR 0x5C, CHR 0x22] @ ''hi'' @ [CHR 0x5C, CHR 0x22] @ [CHR 0x22]"
  using escapeShellArgument_cases[of shescape_throws "''notes/to_do-1.md''"]
    escapeShellArgument_cases[of Some "''a b''"]
    escapeShellArgument_cases[of shescape_throws "''say '' @ [CHR 0x22] @ ''hi'' @ [CHR 0x22]"]
  by (simp add: shescape_throws_def spec_safe_chars_def)

text \<open>
  Claim C7 as stated leaves the underscore out of the characters that need no quoting:
  for \<open>a_b\<close> the code returns the string unchanged, where the stated fallback quotes it.
\<close>

theorem fallback_escape_underscore_counterexample:
  "escapeShellArgument shescape_throws ''a_b'' = ''a_b''
   \<and> spec_fallback_escape ''a_b'' = [CHR 0x22] @ ''a_b'' @ [CHR 0x22]"
  by (simp add: escapeShellArgument_def shescape_throws_def needs_quoting_def is_word_char_def
      is_upper_def is_lower_def is_digit_def spec_fallback_escape_def spec_safe_chars_def)

section \<open>Properties of the process execution engine\<close>

lemmas example_defs = DEFAULT_SETTINGS_def example_env_def example_ls_vault_def example_host_def
  example_error_def example_exit_error_def example_launch_error_def example_command_def
  shescape_throws_def example_join_def

lemmas context_defs = getParameterContext_def withEditor_def withActiveFile_def emptyContext_def

lemmas engine_defs = executeCommand_def executeCommand_try_def executeCommand_catch_def try_catch_def
  workingDir_def notify_def isBackground_def foreground_invocation_def getShellWithLoginFlag_def
  getSelectedShell_def preview_def code_truthy_def

lemmas subst_defs = substituteParameters_def substitutions_def fixed_substitutions_def or_else_def
  regex_literal_def regex_syntax_char_def replace_placeholder_def replace_gi_def example_runtime_def
  ascii_upper_char_def is_lower_def escapeShellArgument_def needs_quoting_def is_word_char_def
  is_upper_def is_digit_def prompt_placeholder_def ascii_lower_def ascii_lower_char_def

lemma example_substitution:
  "substituteParameters example_runtime shescape_throws (script_command example_ls_vault)
     (getParameterContext example_host) = Inr example_command"
  by (simp add: example_defs context_defs subst_defs Let_def)

lemma try_catch_Inr: "snd body = Inr v \<Longrightarrow> try_catch body handler = body"
  by (simp add: try_catch_def)

lemma try_catch_Inl:
  "snd body = Inl e \<Longrightarrow> try_catch body handler = (fst body @ fst (handler e), snd (handler e))"
  by (simp add: try_catch_def)

lemma results_created_append: "results_created (a @ b) = results_created a @ results_created b"
  by (induction a rule: results_created.induct) simp_all

lemma results_created_notify: "results_created (notify st n) = []"
  by (simp add: notify_def)

lemma executeCommand_catch_result:
  "snd (executeCommand_catch st script cmd ctx e) =
     Inr \<lparr>success = False,
          output_text = or_else (err_stdout e) [],
          error = (if truthy (err_stderr e) then or_else (err_stderr e) []
                   else or_else (err_message e) ''An unknown error occurred.''),
          exitCode = (if code_truthy (err_code e) then (case err_code e of Some c \<Rightarrow> c | None \<Rightarrow> CodeNum (- 1))
                      else CodeNum (- 1)),
          command = cmd, originalCommand = script_command script, parameters = ctx\<rparr>"
  by (simp add: executeCommand_catch_def Let_def)

lemma executeCommand_catch_created:
  "snd (executeCommand_catch st script cmd ctx e) = Inr r \<Longrightarrow>
     results_created (fst (executeCommand_catch st script cmd ctx e)) = [r]"
  by (auto simp: executeCommand_catch_def Let_def results_created_append results_created_notify)

text \<open>What the \<open>try\<close> block throws, and what it builds before it does.\<close>

lemma executeCommand_try_Rejected:
  "snd (executeCommand_try st p join (Rejected e) act script cmd ctx) = Inl e
   \<and> results_created (fst (executeCommand_try st p join (Rejected e) act script cmd ctx)) = []"
  by (simp add: executeCommand_try_def Let_def results_created_append results_created_notify)

lemma executeCommand_try_action_throws:
  assumes "runs_default_action script"
  shows "snd (executeCommand_try st p join (Fulfilled out err) (Some e) script cmd ctx) = Inl e
   \<and> results_created (fst (executeCommand_try st p join (Fulfilled out err) (Some e) script cmd ctx))
       = [\<lparr>success = True, output_text = out, error = err, exitCode = CodeNum 0,
           command = cmd, originalCommand = script_command script, parameters = ctx\<rparr>]"
  using assms
  by (auto simp: executeCommand_try_def runs_default_action_def truthy_def Let_def
      results_created_append results_created_notify split: option.splits)

lemma executeCommand_try_normal:
  assumes "\<not> (runs_default_action script \<and> act \<noteq> None)"
  shows "snd (executeCommand_try st p join (Fulfilled out err) act script cmd ctx)
       = Inr \<lparr>success = True, output_text = out, error = err, exitCode = CodeNum 0,
              command = cmd, originalCommand = script_command script, parameters = ctx\<rparr>
   \<and> results_created (fst (executeCommand_try st p join (Fulfilled out err) act script cmd ctx))
       = [\<lparr>success = True, output_text = out, error = err, exitCode = CodeNum 0,
           command = cmd, originalCommand = script_command script, parameters = ctx\<rparr>]"
  using assms
  by (auto simp: executeCommand_try_def runs_default_action_def truthy_def Let_def
      results_created_append results_created_notify split: option.splits)

lemma executeCommand_thrown:
  assumes "snd (executeCommand_try st p join outcome act script cmd ctx) = Inl e"
  shows "snd (executeCommand st p join outcome act script cmd ctx)
           = snd (executeCommand_catch st script cmd ctx e)
       \<and> results_created (fst (executeCommand st p join outcome act script cmd ctx))
           = results_created (fst (executeCommand_try st p join outcome act script cmd ctx))
             @ results_created (fst (executeCommand_catch st script cmd ctx e))"
  using assms by (simp add: executeCommand_def try_catch_Inl results_created_append)

lemma executeCommand_returns:
  "\<exists>r. snd (executeCommand st p join outcome act script cmd ctx) = Inr r"
proof (cases "snd (executeCommand_try st p join outcome act script cmd ctx)")
  case (Inl e)
  then show ?thesis
    by (simp add: executeCommand_def try_catch_Inl executeCommand_catch_result)
next
  case (Inr r)
  then show ?thesis by (simp add: executeCommand_def try_catch_Inr)
qed

lemma executeCommand_try_records:
  "snd (executeCommand_try st p join outcome act script cmd ctx) = Inr r \<Longrightarrow>
     success r \<and> command r = cmd \<and> originalCommand r = script_command script \<and> parameters r = ctx"
  by (cases outcome; cases act)
     (auto simp: executeCommand_try_def Let_def split: option.splits if_splits)

lemma executeCommand_records:
  assumes "snd (executeCommand st p join outcome act script cmd ctx) = Inr r"
  shows "command r = cmd \<and> originalCommand r = script_command script \<and> parameters r = ctx"
proof (cases "snd (executeCommand_try st p join outcome act script cmd ctx)")
  case (Inl e)
  then show ?thesis using assms
    by (auto simp add: executeCommand_def try_catch_Inl executeCommand_catch_result)
next
  case (Inr r')
  then show ?thesis using assms executeCommand_try_records[OF Inr]
    by (simp add: executeCommand_def try_catch_Inr)
qed

lemma executeCommand_launches:
  "Launch (foreground_invocation st p (workingDir st p join script ctx) cmd)
     \<in> set (fst (executeCommand st p join outcome act script cmd ctx))"
  by (cases outcome; cases act)
     (auto simp: executeCommand_def executeCommand_try_def try_catch_def Let_def
        split: option.splits)

text \<open>The failure result built from a thrown error.\<close>

lemma executeCommand_failure:
  assumes "outcome = Rejected e
           \<or> ((\<exists>out err. outcome = Fulfilled out err) \<and> runs_default_action script \<and> act = Some e)"
  shows "snd (executeCommand st p join outcome act script cmd ctx)
           = snd (executeCommand_catch st script cmd ctx e)"
proof -
  have "snd (executeCommand_try st p join outcome act script cmd ctx) = Inl e"
    using assms executeCommand_try_Rejected executeCommand_try_action_throws by blast
  then show ?thesis using executeCommand_thrown by blast
qed

text \<open>
  Claim C5, as the code has it. The foreground execution never throws, whatever the
  script, the command and the context: whatever is thrown inside it is caught, and a
  result is returned. When the process fails (the promise of \<open>exec\<close> is rejected with an
  error: a process that could not be started, an exit code other than zero, a timeout,
  an output beyond the limit), and also when the default action of a foreground script
  throws after the process has succeeded, the result has \<open>success = false\<close>, holds the
  standard output the error carries, and records the command, the template and the
  context. Its exit code is the code the error carries: the number the process exited
  with, or the name of a system error, a string, as for a process that could not be
  started. It is -1 only when the error carries no code, the code zero or an empty one.
  Its error text is the captured standard error, or else the message of the error, or
  else a fixed text when both are empty. When the process succeeds and no default action
  throws, the result is the record of the success.
\<close>

theorem executeCommand_never_throws:
  "(\<exists>r. snd (executeCommand st p join outcome act script cmd ctx) = Inr r)
   \<and> (\<forall>e. outcome = Rejected e
            \<or> ((\<exists>out err. outcome = Fulfilled out err) \<and> runs_default_action script \<and> act = Some e)
        \<longrightarrow>
        (\<exists>r. snd (executeCommand st p join outcome act script cmd ctx) = Inr r
           \<and> \<not> success r
           \<and> output_text r = (case err_stdout e of Some s \<Rightarrow> s | None \<Rightarrow> [])
           \<and> command r = cmd \<and> originalCommand r = script_command script \<and> parameters r = ctx
           \<and> (\<forall>n. err_code e = Some (CodeNum n) \<and> n \<noteq> 0 \<longrightarrow> exitCode r = CodeNum n)
           \<and> (\<forall>s. err_code e = Some (CodeStr s) \<and> s \<noteq> [] \<longrightarrow> exitCode r = CodeStr s)
           \<and> (err_code e = None \<or> err_code e = Some (CodeNum 0) \<or> err_code e = Some (CodeStr [])
                \<longrightarrow> exitCode r = CodeNum (- 1))
           \<and> (\<forall>s. err_stderr e = Some s \<and> s \<noteq> [] \<longrightarrow> error r = s)
           \<and> (\<forall>m. \<not> truthy (err_stderr e) \<and> err_message e = Some m \<and> m \<noteq> [] \<longrightarrow> error r = m)
           \<and> (\<not> truthy (err_stderr e) \<and> \<not> truthy (err_message e)
                 \<longrightarrow> error r = ''An unknown error occurred.'')))
   \<and> (\<forall>out err. outcome = Fulfilled out err \<and> \<not> (runs_default_action script \<and> act \<noteq> None)
        \<longrightarrow> snd (executeCommand st p join outcome act script cmd ctx)
              = Inr \<lparr>success = True, output_text = out, error = err, exitCode = CodeNum 0,
                     command = cmd, originalCommand = script_command script, parameters = ctx\<rparr>)"
proof (intro conjI allI impI)
  show "\<exists>r. snd (executeCommand st p join outcome act script cmd ctx) = Inr r"
    by (rule executeCommand_returns)
next
  fix e
  assume a: "outcome = Rejected e
           \<or> ((\<exists>out err. outcome = Fulfilled out err) \<and> runs_default_action script \<and> act = Some e)"
  have r: "snd (executeCommand st p join outcome act script cmd ctx)
           = snd (executeCommand_catch st script cmd ctx e)"
    using a by (rule executeCommand_failure)
  show "\<exists>r. snd (executeCommand st p join outcome act script cmd ctx) = Inr r
           \<and> \<not> success r
           \<and> output_text r = (case err_stdout e of Some s \<Rightarrow> s | None \<Rightarrow> [])
           \<and> command r = cmd \<and> originalCommand r = script_command script \<and> parameters r = ctx
           \<and> (\<forall>n. err_code e = Some (CodeNum n) \<and> n \<noteq> 0 \<longrightarrow> exitCode r = CodeNum n)
           \<and> (\<forall>s. err_code e = Some (CodeStr s) \<and> s \<noteq> [] \<longrightarrow> exitCode r = CodeStr s)
           \<and> (err_code e = None \<or> err_code e = Some (CodeNum 0) \<or> err_code e = Some (CodeStr [])
                \<longrightarrow> exitCode r = CodeNum (- 1))
           \<and> (\<forall>s. err_stderr e = Some s \<and> s \<noteq> [] \<longrightarrow> error r = s)
           \<and> (\<forall>m. \<not> truthy (err_stderr e) \<and> err_message e = Some m \<and> m \<noteq> [] \<longrightarrow> error r = m)
           \<and> (\<not> truthy (err_stderr e) \<and> \<not> truthy (err_message e)
                 \<longrightarrow> error r = ''An unknown error occurred.'')"
    unfolding r executeCommand_catch_result
    by (auto simp: truthy_def or_else_def code_truthy_def split: option.splits)
next
  fix out err
  assume "outcome = Fulfilled out err \<and> \<not> (runs_default_action script \<and> act \<noteq> None)"
  then have o: "outcome = Fulfilled out err" and n: "\<not> (runs_default_action script \<and> act \<noteq> None)"
    by simp_all
  show "snd (executeCommand st p join outcome act script cmd ctx)
              = Inr \<lparr>success = True, output_text = out, error = err, exitCode = CodeNum 0,
                     command = cmd, originalCommand = script_command script, parameters = ctx\<rparr>"
    unfolding o executeCommand_def
    using executeCommand_try_normal[OF n, of st p join out err cmd ctx]
    by (simp add: try_catch_Inr)
qed

theorem executeCommand_never_throws_witness:
  "snd (executeCommand DEFAULT_SETTINGS example_env example_join (Rejected example_exit_error) None
       example_ls_vault example_command (getParameterContext example_host))
     = Inr \<lparr>success = False, output_text = [], error = ''ls: cannot access'',
            exitCode = CodeNum 2, command = example_command,
            originalCommand = script_command example_ls_vault,
            parameters = getParameterContext example_host\<rparr>
   \<and> (case snd (executeCommand DEFAULT_SETTINGS example_env example_join (Fulfilled ''notes'' [])
          (Some example_error) (example_ls_vault\<lparr>defaultAction := Some ''copy''\<rparr>) example_command
          (getParameterContext example_host)) of
        Inl e \<Rightarrow> False
      | Inr r \<Rightarrow> \<not> success r \<and> exitCode r = CodeStr ''ERR_INVALID_ARG_VALUE''
                \<and> error r = ''The argument must be a string without null bytes'')"
proof -
  have ra: "runs_default_action (example_ls_vault\<lparr>defaultAction := Some ''copy''\<rparr>)"
    by (simp add: runs_default_action_def isBackground_def truthy_def example_ls_vault_def)
  have a: "snd (executeCommand DEFAULT_SETTINGS example_env example_join (Rejected example_exit_error) None
       example_ls_vault example_command (getParameterContext example_host))
     = Inr \<lparr>success = False, output_text = [], error = ''ls: cannot access'',
            exitCode = CodeNum 2, command = example_command,
            originalCommand = script_command example_ls_vault,
            parameters = getParameterContext example_host\<rparr>"
    by (simp add: executeCommand_failure executeCommand_catch_result example_exit_error_def
        truthy_def or_else_def code_truthy_def)
  show ?thesis
    using a ra executeCommand_never_throws[of DEFAULT_SETTINGS example_env example_join
      "Fulfilled ''notes'' []" "Some example_error" "example_ls_vault\<lparr>defaultAction := Some ''copy''\<rparr>"
      example_command "getParameterContext example_host"]
    by (auto simp: example_error_def truthy_def)
qed

text \<open>
  Claim C5 as stated gives the exit code -1 to a process that never started. When the
  shell is not found the error of \<open>exec\<close> carries the code \<open>ENOENT\<close>, and the result holds
  this string as its exit code.
\<close>

theorem launch_failure_exit_code_counterexample:
  "snd (executeCommand DEFAULT_SETTINGS example_env example_join (Rejected example_launch_error) None
       example_ls_vault example_command (getParameterContext example_host))
     = Inr \<lparr>success = False, output_text = [], error = ''spawn /bin/zsh ENOENT'',
            exitCode = CodeStr ''ENOENT'', command = example_command,
            originalCommand = script_command example_ls_vault,
            parameters = getParameterContext example_host\<rparr>"
  by (simp add: executeCommand_failure executeCommand_catch_result example_launch_error_def
      truthy_def or_else_def code_truthy_def)

text \<open>
  Claim C4, as the code has it. A launch failure that the child reports later (its
  \<open>error\<close> event) is shown as a transient notification only, and the detached execution
  returns normally. A failure thrown while the process is set up or spawned is shown as a
  notification and then thrown again to the caller.
\<close>

theorem executeInTerminal_launch_failure:
  "(\<forall>e. outcome = Spawned (Some e) \<longrightarrow>
        executeInTerminal st p join outcome script cmd ctx =
          (fst (executeInTerminal st p join (Spawned None) script cmd ctx)
             @ [Notice (ShellExecutionFailed (err_message e))], Inr ()))
   \<and> (\<forall>e. outcome = SpawnThrows e \<longrightarrow>
        executeInTerminal st p join outcome script cmd ctx =
          (fst (executeInTerminal st p join (Spawned None) script cmd ctx)
             @ [Notice (ShellExecutionFailed (err_message e))], Inl e))
   \<and> snd (executeInTerminal st p join (Spawned None) script cmd ctx) = Inr ()"
  by (simp add: executeInTerminal_def executeInTerminal_try_def executeInTerminal_catch_def
      try_catch_def Let_def)

theorem executeInTerminal_launch_failure_witness:
  "snd (executeInTerminal DEFAULT_SETTINGS example_env example_join (Spawned (Some example_error))
          example_ls_vault example_command (getParameterContext example_host)) = Inr ()
   \<and> last (fst (executeInTerminal DEFAULT_SETTINGS example_env example_join (Spawned (Some example_error))
          example_ls_vault example_command (getParameterContext example_host)))
       = Notice (ShellExecutionFailed (Some ''The argument must be a string without null bytes''))"
  using executeInTerminal_launch_failure[of "Spawned (Some example_error)" DEFAULT_SETTINGS
      example_env example_join example_ls_vault example_command "getParameterContext example_host"]
  by (simp add: example_error_def)

text \<open>
  Claim C4 as stated says that the detached execution never throws: when \<open>spawn\<close> throws,
  the handler of \<open>executeInTerminal\<close> throws the error again.
\<close>

theorem executeInTerminal_rethrows_counterexample:
  "snd (executeInTerminal DEFAULT_SETTINGS example_env example_join (SpawnThrows example_error)
          example_ls_vault example_command (getParameterContext example_host)) = Inl example_error"
  by (simp add: executeInTerminal_def executeInTerminal_try_def executeInTerminal_catch_def
      try_catch_def Let_def)

lemma executeCommand_background_effects:
  "isBackground script \<Longrightarrow>
     list_all (\<lambda>x. transient x \<or> builds_result x)
       (fst (executeCommand st p join outcome act script cmd ctx))"
  by (cases outcome)
     (auto simp: executeCommand_def executeCommand_try_def executeCommand_catch_def try_catch_def
        notify_def transient_def builds_result_def Let_def)

lemma executeInTerminal_effects:
  "list_all transient (fst (executeInTerminal st p join spawned script cmd ctx))
   \<and> results_created (fst (executeInTerminal st p join spawned script cmd ctx)) = []"
  by (cases spawned)
     (auto simp: executeInTerminal_def executeInTerminal_try_def executeInTerminal_catch_def
        try_catch_def notify_def transient_def Let_def split: option.splits)

lemma executeCommand_created:
  "\<exists>r. snd (executeCommand st p join outcome act script cmd ctx) = Inr r
     \<and> results_created (fst (executeCommand st p join outcome act script cmd ctx))
         = (if (\<exists>out err. outcome = Fulfilled out err) \<and> runs_default_action script \<and> act \<noteq> None
            then (case outcome of
                    Fulfilled out err \<Rightarrow>
                      [\<lparr>success = True, output_text = out, error = err, exitCode = CodeNum 0,
                        command = cmd, originalCommand = script_command script, parameters = ctx\<rparr>, r]
                  | Rejected e \<Rightarrow> [r])
            else [r])"
proof (cases outcome)
  case (Rejected e)
  have t: "snd (executeCommand_try st p join outcome act script cmd ctx) = Inl e"
    and c: "results_created (fst (executeCommand_try st p join outcome act script cmd ctx)) = []"
    unfolding Rejected using executeCommand_try_Rejected by blast+
  obtain r where r: "snd (executeCommand_catch st script cmd ctx e) = Inr r"
    using executeCommand_catch_result by blast
  show ?thesis
    using executeCommand_thrown[OF t] c r executeCommand_catch_created[OF r] Rejected by simp
next
  case (Fulfilled out err)
  show ?thesis
  proof (cases "runs_default_action script \<and> act \<noteq> None")
    case True
    then obtain e where e: "act = Some e" and ra: "runs_default_action script" by auto
    have t: "snd (executeCommand_try st p join outcome act script cmd ctx) = Inl e"
      and c: "results_created (fst (executeCommand_try st p join outcome act script cmd ctx))
               = [\<lparr>success = True, output_text = out, error = err, exitCode = CodeNum 0,
                   command = cmd, originalCommand = script_command script, parameters = ctx\<rparr>]"
      unfolding Fulfilled e using executeCommand_try_action_throws[OF ra] by blast+
    obtain r where r: "snd (executeCommand_catch st script cmd ctx e) = Inr r"
      using executeCommand_catch_result by blast
    show ?thesis
      using executeCommand_thrown[OF t] c r executeCommand_catch_created[OF r] Fulfilled True by simp
  next
    case False
    from executeCommand_try_normal[OF False, of st p join out err cmd ctx]
    show ?thesis using False Fulfilled by (simp add: executeCommand_def try_catch_Inr)
  qed
qed

text \<open>
  Claim C6, as the code has it. For a script whose background flag is set,
  \<open>executeCommand\<close> (the path the callers take for every script) waits for the process
  and returns a result, the only one it builds. After a process that succeeded the
  result holds its whole standard output, so the caller is held until the process has
  ended. Beyond building the result, the execution only launches the process and shows
  transient notifications. For a foreground script the result returned is the last one
  built, and one result is built, except that two are built when the process succeeds and
  the default action throws. The detached execution \<open>executeInTerminal\<close> builds no
  result, only launches the process and shows transient notifications, and returns as
  soon as the process is spawned, without waiting for it.
\<close>

theorem background_execution_result:
  "(isBackground script \<longrightarrow>
      (\<exists>r. snd (executeCommand st p join outcome act script cmd ctx) = Inr r
          \<and> results_created (fst (executeCommand st p join outcome act script cmd ctx)) = [r]
          \<and> (\<forall>out err. outcome = Fulfilled out err \<longrightarrow>
                 success r \<and> output_text r = out \<and> error r = err \<and> exitCode r = CodeNum 0)
          \<and> (\<forall>e. outcome = Rejected e \<longrightarrow> \<not> success r))
      \<and> list_all (\<lambda>x. transient x \<or> builds_result x)
           (fst (executeCommand st p join outcome act script cmd ctx)))
   \<and> (\<not> isBackground script \<longrightarrow>
        (\<exists>r. snd (executeCommand st p join outcome act script cmd ctx) = Inr r
           \<and> last (results_created (fst (executeCommand st p join outcome act script cmd ctx))) = r
           \<and> length (results_created (fst (executeCommand st p join outcome act script cmd ctx)))
               = (if (\<exists>out err. outcome = Fulfilled out err) \<and> runs_default_action script
                     \<and> act \<noteq> None then 2 else 1)))
   \<and> results_created (fst (executeInTerminal st p join spawned script cmd ctx)) = []
   \<and> list_all transient (fst (executeInTerminal st p join spawned script cmd ctx))
   \<and> (\<forall>later. spawned = Spawned later \<longrightarrow>
          snd (executeInTerminal st p join spawned script cmd ctx) = Inr ())"
proof (intro conjI impI)
  assume bg: "isBackground script"
  then have nra: "\<not> (runs_default_action script \<and> act \<noteq> None)"
    by (simp add: runs_default_action_def)
  from executeCommand_created[of st p join outcome act script cmd ctx]
  obtain r where r: "snd (executeCommand st p join outcome act script cmd ctx) = Inr r"
    and c: "results_created (fst (executeCommand st p join outcome act script cmd ctx)) = [r]"
    using nra by auto
  have f: "\<forall>out err. outcome = Fulfilled out err \<longrightarrow>
                 success r \<and> output_text r = out \<and> error r = err \<and> exitCode r = CodeNum 0"
  proof (intro allI impI)
    fix out err
    assume o: "outcome = Fulfilled out err"
    from executeCommand_try_normal[OF nra, of st p join out err cmd ctx]
    show "success r \<and> output_text r = out \<and> error r = err \<and> exitCode r = CodeNum 0"
      using r o by (auto simp: executeCommand_def try_catch_Inr)
  qed
  have j: "\<forall>e. outcome = Rejected e \<longrightarrow> \<not> success r"
    using r executeCommand_failure[of outcome _ script act st p join cmd ctx]
    by (auto simp: executeCommand_catch_result)
  show "\<exists>r. snd (executeCommand st p join outcome act script cmd ctx) = Inr r
          \<and> results_created (fst (executeCommand st p join outcome act script cmd ctx)) = [r]
          \<and> (\<forall>out err. outcome = Fulfilled out err \<longrightarrow>
                 success r \<and> output_text r = out \<and> error r = err \<and> exitCode r = CodeNum 0)
          \<and> (\<forall>e. outcome = Rejected e \<longrightarrow> \<not> success r)"
    using r c f j by blast
  show "list_all (\<lambda>x. transient x \<or> builds_result x)
           (fst (executeCommand st p join outcome act script cmd ctx))"
    using bg by (rule executeCommand_background_effects)
next
  assume "\<not> isBackground script"
  from executeCommand_created[of st p join outcome act script cmd ctx]
  show "\<exists>r. snd (executeCommand st p join outcome act script cmd ctx) = Inr r
           \<and> last (results_created (fst (executeCommand st p join outcome act script cmd ctx))) = r
           \<and> length (results_created (fst (executeCommand st p join outcome act script cmd ctx)))
               = (if (\<exists>out err. outcome = Fulfilled out err) \<and> runs_default_action script
                     \<and> act \<noteq> None then 2 else 1)"
    by (cases outcome) auto
next
  show "results_created (fst (executeInTerminal st p join spawned script cmd ctx)) = []"
    using executeInTerminal_effects by blast
  show "list_all transient (fst (executeInTerminal st p join spawned script cmd ctx))"
    using executeInTerminal_effects by blast
  show "\<forall>later. spawned = Spawned later \<longrightarrow>
          snd (executeInTerminal st p join spawned script cmd ctx) = Inr ()"
    by (auto simp: executeInTerminal_def executeInTerminal_try_def try_catch_def Let_def
        split: option.splits)
qed

theorem background_execution_result_witness:
  "isBackground (example_ls_vault\<lparr>backgroundExecution := Some True\<rparr>)
   \<and> executeCommand DEFAULT_SETTINGS example_env example_join (Fulfilled ''notes'' []) None
        (example_ls_vault\<lparr>backgroundExecution := Some True\<rparr>) example_command
        (getParameterContext example_host)
       = ([Notice (RunningInBackground ''List vault contents''),
           Launch (Exec example_command ''/bin/zsh'' ''/Users/me/Vault'' 10000),
           CreateResult \<lparr>success = True, output_text = ''notes'', error = [], exitCode = CodeNum 0,
                         command = example_command,
                         originalCommand = script_command example_ls_vault,
                         parameters = getParameterContext example_host\<rparr>,
           Notice (CompletedBackground ''List vault contents'' ''notes'')],
          Inr \<lparr>success = True, output_text = ''notes'', error = [], exitCode = CodeNum 0,
                command = example_command,
                originalCommand = script_command example_ls_vault,
                parameters = getParameterContext example_host\<rparr>)
   \<and> \<not> isBackground example_ls_vault
   \<and> length (results_created (fst (executeCommand DEFAULT_SETTINGS example_env example_join
        (Fulfilled ''notes'' []) None example_ls_vault example_command
        (getParameterContext example_host)))) = 1
   \<and> snd (executeInTerminal DEFAULT_SETTINGS example_env example_join (Spawned None)
        example_ls_vault example_command (getParameterContext example_host)) = Inr ()"
proof -
  let ?s = "example_ls_vault\<lparr>backgroundExecution := Some True\<rparr>"
  let ?r = "\<lparr>success = True, output_text = ''notes'', error = [], exitCode = CodeNum 0,
             command = example_command, originalCommand = script_command example_ls_vault,
             parameters = getParameterContext example_host\<rparr>"
  let ?run = "executeCommand DEFAULT_SETTINGS example_env example_join (Fulfilled ''notes'' []) None
        ?s example_command (getParameterContext example_host)"
  have bg: "isBackground ?s"
    by (simp add: isBackground_def)
  have fx: "fst ?run
       = [Notice (RunningInBackground ''List vault contents''),
          Launch (Exec example_command ''/bin/zsh'' ''/Users/me/Vault'' 10000),
          CreateResult ?r,
          Notice (CompletedBackground ''List vault contents'' ''notes'')]"
    by (simp add: engine_defs DEFAULT_SETTINGS_def example_env_def example_ls_vault_def
        example_host_def context_defs detectDefaultShell_def or_else_def pop_def supportedShells_def
        getLoginFlag_def Let_def)
  from background_execution_result[of ?s DEFAULT_SETTINGS example_env example_join
      "Fulfilled ''notes'' []" None example_command "getParameterContext example_host" "Spawned None"]
  have a: "snd ?run = Inr ?r" using bg fx by auto
  have fg: "\<not> isBackground example_ls_vault"
    by (simp add: isBackground_def example_ls_vault_def)
  from background_execution_result[of example_ls_vault DEFAULT_SETTINGS example_env example_join
      "Fulfilled ''notes'' []" None example_command "getParameterContext example_host" "Spawned None"]
  have b: "length (results_created (fst (executeCommand DEFAULT_SETTINGS example_env example_join
        (Fulfilled ''notes'' []) None example_ls_vault example_command
        (getParameterContext example_host)))) = 1"
    and c: "snd (executeInTerminal DEFAULT_SETTINGS example_env example_join (Spawned None)
        example_ls_vault example_command (getParameterContext example_host)) = Inr ()"
    using fg by auto
  show ?thesis using a b c bg fg fx by (simp add: prod_eq_iff)
qed

text \<open>
  Claim C6 as stated fails. A background script run by a caller gets a result that holds
  the whole output of the process; and for a foreground script whose default action
  throws, two results are built.
\<close>

theorem background_result_counterexample:
  "snd (executeUserCommand example_runtime DEFAULT_SETTINGS example_env example_join shescape_throws
          (Fulfilled ''notes'' []) None example_host None
          (example_ls_vault\<lparr>backgroundExecution := Some True\<rparr>))
     = Some \<lparr>success = True, output_text = ''notes'', error = [], exitCode = CodeNum 0,
              command = example_command,
              originalCommand = script_command example_ls_vault,
              parameters = getParameterContext example_host\<rparr>
   \<and> results_created
         (fst (executeCommand DEFAULT_SETTINGS example_env example_join (Fulfilled ''notes'' [])
            (Some example_error) (example_ls_vault\<lparr>defaultAction := Some ''copy''\<rparr>)
            example_command (getParameterContext example_host)))
     = [\<lparr>success = True, output_text = ''notes'', error = [], exitCode = CodeNum 0,
         command = example_command,
         originalCommand = script_command example_ls_vault,
         parameters = getParameterContext example_host\<rparr>,
        \<lparr>success = False, output_text = [],
         error = ''The argument must be a string without null bytes'',
         exitCode = CodeStr ''ERR_INVALID_ARG_VALUE'',
         command = example_command,
         originalCommand = script_command example_ls_vault,
         parameters = getParameterContext example_host\<rparr>]"
proof -
  have s: "substituteParameters example_runtime shescape_throws
          (script_command (example_ls_vault\<lparr>backgroundExecution := Some True\<rparr>))
          (getParameterContext example_host) = Inr example_command"
    using example_substitution by simp
  have a: "snd (executeUserCommand example_runtime DEFAULT_SETTINGS example_env example_join shescape_throws
          (Fulfilled ''notes'' []) None example_host None
          (example_ls_vault\<lparr>backgroundExecution := Some True\<rparr>))
     = Some \<lparr>success = True, output_text = ''notes'', error = [], exitCode = CodeNum 0,
              command = example_command,
              originalCommand = script_command example_ls_vault,
              parameters = getParameterContext example_host\<rparr>"
    using s
    by (simp add: executeUserCommand_def substitute_and_execute_def executeCommand_def
        executeCommand_try_def try_catch_def isBackground_def Let_def example_ls_vault_def)
  have b: "results_created
         (fst (executeCommand DEFAULT_SETTINGS example_env example_join (Fulfilled ''notes'' [])
            (Some example_error) (example_ls_vault\<lparr>defaultAction := Some ''copy''\<rparr>)
            example_command (getParameterContext example_host)))
     = [\<lparr>success = True, output_text = ''notes'', error = [], exitCode = CodeNum 0,
         command = example_command,
         originalCommand = script_command example_ls_vault,
         parameters = getParameterContext example_host\<rparr>,
        \<lparr>success = False, output_text = [],
         error = ''The argument must be a string without null bytes'',
         exitCode = CodeStr ''ERR_INVALID_ARG_VALUE'',
         command = example_command,
         originalCommand = script_command example_ls_vault,
         parameters = getParameterContext example_host\<rparr>]"
    by (simp add: executeCommand_def executeCommand_try_def executeCommand_catch_def try_catch_def
        isBackground_def notify_def Let_def example_ls_vault_def example_error_def truthy_def
        or_else_def code_truthy_def DEFAULT_SETTINGS_def)
  show ?thesis using a b by simp
qed

section \<open>Properties of a run\<close>

text \<open>The context a run substitutes into and records.\<close>

lemma substitute_and_execute_run:
  "(\<forall>r. snd (substitute_and_execute rt st p join shescape outcome act script ctx) = Some r \<longrightarrow>
        substituteParameters rt shescape (script_command script) ctx = Inr (command r)
        \<and> originalCommand r = script_command script \<and> parameters r = ctx
        \<and> Launch (foreground_invocation st p (workingDir st p join script ctx) (command r))
            \<in> set (fst (substitute_and_execute rt st p join shescape outcome act script ctx)))
   \<and> (\<forall>c. substituteParameters rt shescape (script_command script) ctx = Inr c \<longrightarrow>
        (\<exists>r. snd (substitute_and_execute rt st p join shescape outcome act script ctx) = Some r
            \<and> command r = c))"
proof (cases "substituteParameters rt shescape (script_command script) ctx")
  case (Inl f)
  then show ?thesis by (simp add: substitute_and_execute_def)
next
  case (Inr sc)
  obtain r' where r': "snd (executeCommand st p join outcome act script sc ctx) = Inr r'"
    using executeCommand_returns by blast
  have l: "Launch (foreground_invocation st p (workingDir st p join script ctx) sc)
             \<in> set (fst (executeCommand st p join outcome act script sc ctx))"
    by (rule executeCommand_launches)
  show ?thesis
    using Inr r' l executeCommand_records[OF r']
    by (simp add: substitute_and_execute_def Let_def)
qed

text \<open>
  Claim C2. A run is what both callers do: collect the context, ask for the prompt values
  when the script has prompts, substitute, execute. Whatever the runtime does with case
  and with regular expressions, every result a run returns, of a success or of a failure,
  satisfies the round trip: substituting the recorded template with the recorded context
  gives exactly the recorded command. The recorded template is the command of the script,
  the recorded context is the context the run collected (with the submitted prompt values
  when the script asks for some), and the recorded command is the one the process was
  launched with. And a run returns a result with the substituted command whenever the
  substitution gives one and the prompt dialog, when there is one, is submitted.
\<close>

theorem result_command_is_substitution:
  "(\<forall>r. snd (executeUserCommand rt st p join shescape outcome act host submitted script) = Some r
        \<longrightarrow> substituteParameters rt shescape (originalCommand r) (parameters r) = Inr (command r)
          \<and> originalCommand r = script_command script
          \<and> parameters r =
              (case script_prompts script of
                 Some (q # qs) \<Rightarrow> (getParameterContext host)\<lparr>prompts := submitted\<rparr>
               | _ \<Rightarrow> getParameterContext host)
          \<and> Launch (foreground_invocation st p (workingDir st p join script (parameters r)) (command r))
               \<in> set (fst (executeUserCommand rt st p join shescape outcome act host submitted script)))
   \<and> (\<forall>c. substituteParameters rt shescape (script_command script)
              (case script_prompts script of
                 Some (q # qs) \<Rightarrow> (getParameterContext host)\<lparr>prompts := submitted\<rparr>
               | _ \<Rightarrow> getParameterContext host) = Inr c
            \<and> (\<forall>q qs. script_prompts script = Some (q # qs) \<longrightarrow> submitted \<noteq> None)
        \<longrightarrow> (\<exists>r. snd (executeUserCommand rt st p join shescape outcome act host submitted script)
                    = Some r \<and> command r = c))"
proof (cases "script_prompts script")
  case None
  then show ?thesis
    using substitute_and_execute_run[of rt st p join shescape outcome act script "getParameterContext host"]
    by (simp add: executeUserCommand_def Let_def)
next
  case (Some ps)
  show ?thesis
  proof (cases ps)
    case Nil
    then show ?thesis
      using Some substitute_and_execute_run[of rt st p join shescape outcome act script "getParameterContext host"]
      by (simp add: executeUserCommand_def Let_def)
  next
    case (Cons q qs)
    show ?thesis
    proof (cases submitted)
      case None
      then show ?thesis using Some Cons by (simp add: executeUserCommand_def Let_def)
    next
      case sub: (Some promptResults)
      then show ?thesis
        using Some Cons
          substitute_and_execute_run[of rt st p join shescape outcome act script
            "(getParameterContext host)\<lparr>prompts := Some promptResults\<rparr>"]
        by (simp add: executeUserCommand_def Let_def)
    qed
  qed
qed

theorem result_command_is_substitution_witness:
  "snd (executeUserCommand example_runtime DEFAULT_SETTINGS example_env example_join shescape_throws
          (Rejected example_exit_error) None example_host None example_ls_vault)
     = Some \<lparr>success = False, output_text = [], error = ''ls: cannot access'', exitCode = CodeNum 2,
              command = example_command,
              originalCommand = script_command example_ls_vault,
              parameters = getParameterContext example_host\<rparr>
   \<and> substituteParameters example_runtime shescape_throws (script_command example_ls_vault)
        (getParameterContext example_host) = Inr example_command"
proof -
  have s: "substituteParameters example_runtime shescape_throws (script_command example_ls_vault)
          (getParameterContext example_host) = Inr example_command"
    by (rule example_substitution)
  have r: "snd (executeUserCommand example_runtime DEFAULT_SETTINGS example_env example_join shescape_throws
          (Rejected example_exit_error) None example_host None example_ls_vault)
     = Some \<lparr>success = False, output_text = [], error = ''ls: cannot access'', exitCode = CodeNum 2,
              command = example_command,
              originalCommand = script_command example_ls_vault,
              parameters = getParameterContext example_host\<rparr>"
    using s
    by (simp add: executeUserCommand_def substitute_and_execute_def executeCommand_def
        executeCommand_try_def executeCommand_catch_def try_catch_def isBackground_def Let_def
        example_ls_vault_def example_exit_error_def truthy_def or_else_def code_truthy_def)
  from result_command_is_substitution[of example_runtime DEFAULT_SETTINGS example_env example_join
      shescape_throws "Rejected example_exit_error" None example_host None example_ls_vault]
  show ?thesis using r by simp
qed

section \<open>Properties of the line placeholders\<close>

lemma digit_value_digit_char: "d < 10 \<Longrightarrow> digit_value (digit_char d) = d"
proof -
  assume "d < 10"
  then have "d \<in> {0, 1, 2, 3, 4, 5, 6, 7, 8, 9}" by auto
  then show ?thesis
    by (auto simp: digit_value_def digit_char_def)
qed

lemma parse_decimal_snoc: "parse_decimal (s @ [c]) = 10 * parse_decimal s + digit_value c"
  by (simp add: parse_decimal_def)

declare toString.simps [simp del]

lemma parse_decimal_toString: "parse_decimal (toString n) = n"
proof (induction n rule: toString.induct)
  case (1 n)
  show ?case
  proof (cases "n < 10")
    case True
    then show ?thesis
      using digit_value_digit_char[of n]
      by (subst toString.simps) (simp add: parse_decimal_def)
  next
    case False
    have "n mod 10 < 10" by simp
    then show ?thesis
      using False 1 digit_value_digit_char[of "n mod 10"]
      by (subst toString.simps) (simp add: parse_decimal_snoc)
  qed
qed

lemma map_of_add_prompts_other:
  "\<forall>kw. prompt_placeholder rt kw \<noteq> k \<Longrightarrow> map_of (add_prompts rt tab ps) k = map_of tab k"
  by (induction ps arbitrary: tab) (auto simp: update_conv')

lemma map_of_substitutions_fixed:
  "\<forall>kw. prompt_placeholder rt kw \<noteq> k \<Longrightarrow>
     map_of (substitutions rt ctx) k = map_of (fixed_substitutions ctx) k"
  by (simp add: substitutions_def map_of_add_prompts_other split: option.splits)

lemma not_prompt_currentlinenumber: "prompt_placeholder rt kw \<noteq> ''{currentlinenumber}''"
  by (simp add: prompt_placeholder_def)

lemma not_prompt_cursorline: "prompt_placeholder rt kw \<noteq> ''{cursorline}''"
  by (simp add: prompt_placeholder_def)

lemma editor_context:
  "activeEditor h = Some ed \<Longrightarrow>
     currentLineNumber (getParameterContext h) = Some (line (getCursor ed) + 1)
     \<and> cursorPosition (getParameterContext h) = Some (getCursor ed)"
  by (simp add: getParameterContext_def withEditor_def Let_def)

text \<open>
  Claim C10. For every context collected while an editor is focused (with or without
  prompt values merged into it afterwards), the value the table holds for
  \<open>{currentlinenumber}\<close> is the decimal form of the cursor line plus one, the value it
  holds for \<open>{cursorline}\<close> is the decimal form of the cursor line itself, and so the first
  number is the second plus one.
\<close>

theorem currentlinenumber_is_cursorline_plus_one:
  assumes "activeEditor h = Some ed"
      and "ctx = (getParameterContext h)\<lparr>prompts := submitted\<rparr>"
  shows "\<exists>a b. map_of (substitutions rt ctx) ''{currentlinenumber}'' = Some a
             \<and> map_of (substitutions rt ctx) ''{cursorline}'' = Some b
             \<and> a = toString (line (getCursor ed) + 1)
             \<and> b = toString (line (getCursor ed))
             \<and> parse_decimal a = parse_decimal b + 1"
proof -
  have n: "currentLineNumber ctx = Some (line (getCursor ed) + 1)"
    and c: "cursorPosition ctx = Some (getCursor ed)"
    using editor_context[OF assms(1)] assms(2) by simp_all
  have a: "map_of (substitutions rt ctx) ''{currentlinenumber}'' = Some (toString (line (getCursor ed) + 1))"
    using n not_prompt_currentlinenumber
    by (simp add: map_of_substitutions_fixed fixed_substitutions_def or_else_def)
  have b: "map_of (substitutions rt ctx) ''{cursorline}'' = Some (toString (line (getCursor ed)))"
    using c not_prompt_cursorline
    by (simp add: map_of_substitutions_fixed fixed_substitutions_def or_else_def)
  show ?thesis using a b by (simp add: parse_decimal_toString)
qed

theorem currentlinenumber_is_cursorline_plus_one_witness:
  "activeEditor example_host = Some \<lparr>getSelection = ''milk'', getCursor = \<lparr>line = 4, ch = 2\<rparr>,
                             getLine = (\<lambda>n. ''buy milk'')\<rparr>
   \<and> map_of (substitutions example_runtime (getParameterContext example_host)) ''{currentlinenumber}''
       = Some ''5''
   \<and> map_of (substitutions example_runtime (getParameterContext example_host)) ''{cursorline}''
       = Some ''4''
   \<and> parse_decimal ''5'' = parse_decimal ''4'' + 1"
proof -
  let ?ed = "\<lparr>getSelection = ''milk'', getCursor = \<lparr>line = 4, ch = 2\<rparr>,
              getLine = (\<lambda>n. ''buy milk'')\<rparr>"
  have e: "activeEditor example_host = Some ?ed"
    by (simp add: example_host_def)
  have c: "getParameterContext example_host = (getParameterContext example_host)\<lparr>prompts := None\<rparr>"
    by (simp add: context_defs example_host_def Let_def)
  have five: "toString (4 + 1) = ''5''" and four: "toString 4 = ''4''"
    by (simp_all add: toString.simps digit_char_def)
  from currentlinenumber_is_cursorline_plus_one[OF e c, of example_runtime]
  show ?thesis using e five by (auto simp: four parse_decimal_def digit_value_def)
qed

section \<open>Properties of the substitution engine\<close>

subsection \<open>Characters, matching and tokens\<close>

lemma upper_lower_char: "ascii_upper_char (ascii_lower_char c) = ascii_upper_char c"
  by (cases c) (auto simp: ascii_lower_char_def ascii_upper_char_def is_upper_def is_lower_def)

lemma lower_upper_char: "ascii_lower_char (ascii_upper_char c) = ascii_lower_char c"
  by (cases c) (auto simp: ascii_lower_char_def ascii_upper_char_def is_upper_def is_lower_def)

lemma upper_eq_lbrace: "(ascii_upper_char c = CHR ''{'') = (c = CHR ''{'')"
  by (cases c) (auto simp: ascii_upper_char_def is_lower_def)

lemma upper_eq_rbrace: "(ascii_upper_char c = CHR ''}'') = (c = CHR ''}'')"
  by (cases c) (auto simp: ascii_upper_char_def is_lower_def)

lemma upper_lbrace [simp]: "ascii_upper_char CHR ''{'' = CHR ''{''"
  by (simp add: ascii_upper_char_def is_lower_def)

lemma upper_rbrace [simp]: "ascii_upper_char CHR ''}'' = CHR ''}''"
  by (simp add: ascii_upper_char_def is_lower_def)

lemma lbrace_eq_upper: "(CHR ''{'' = ascii_upper_char c) = (c = CHR ''{'')"
  using upper_eq_lbrace[of c] by auto

lemma rbrace_eq_upper: "(CHR ''}'' = ascii_upper_char c) = (c = CHR ''}'')"
  using upper_eq_rbrace[of c] by auto

lemma rbrace_in_upper: "(CHR ''}'' \<in> set (ascii_upper s)) = (CHR ''}'' \<in> set s)"
  by (induction s) (auto simp: ascii_upper_def rbrace_eq_upper)

lemma is_ascii_upper_char: "is_ascii (ascii_upper_char c) = is_ascii c"
  by (cases c) (auto simp: ascii_upper_char_def is_lower_def is_ascii_def)

lemma ascii_text_upper: "ascii_text (ascii_upper s) = ascii_text s"
  by (induction s) (simp_all add: ascii_text_def ascii_upper_def is_ascii_upper_char)

lemma ascii_text_append: "ascii_text (a @ b) = (ascii_text a \<and> ascii_text b)"
  by (simp add: ascii_text_def)

lemma ascii_text_take: "ascii_text s \<Longrightarrow> ascii_text (take n s)"
  unfolding ascii_text_def list_all_iff using set_take_subset[of n s] by blast

text \<open>
  Against an ASCII code unit, the canonical forms of the runtime decide as the ASCII case
  mapping does.
\<close>

lemma canonicalize_ascii:
  "runtime_ascii rt \<Longrightarrow> is_ascii a \<Longrightarrow>
     (canonicalize rt p = canonicalize rt a) = (ascii_upper_char p = ascii_upper_char a)"
proof -
  assume "runtime_ascii rt" "is_ascii a"
  then have "(canonicalize rt a = canonicalize rt p) = (ascii_upper_char a = ascii_upper_char p)"
    unfolding runtime_ascii_def by blast
  then show ?thesis by auto
qed

lemma matches_at_iff:
  "runtime_ascii rt \<Longrightarrow> ascii_text s \<Longrightarrow>
     matches_at rt p s = (length p \<le> length s \<and> ascii_upper p = ascii_upper (take (length p) s))"
proof (induction rt p s rule: matches_at.induct)
  case (1 rt s)
  then show ?case by (simp add: ascii_upper_def)
next
  case (2 rt p ps)
  then show ?case by (simp add: ascii_upper_def)
next
  case (3 rt p ps c cs)
  then have a: "is_ascii c" and t: "ascii_text cs" by (simp_all add: ascii_text_def)
  show ?case
    using 3(1)[OF 3(2) t] canonicalize_ascii[OF 3(2) a, of p]
    by (auto simp add: ascii_upper_def)
qed

lemma GetSubstitution_dollar_pattern_free:
  "dollar_pattern_free r \<Longrightarrow> GetSubstitution m pre post r = r"
  by (induction m pre post r rule: GetSubstitution.induct) auto

lemma bracedE:
  assumes "braced ph"
  obtains body where "ph = CHR ''{'' # body @ [CHR ''}'']" "brace_free body"
proof -
  from assms obtain r where r: "ph = CHR ''{'' # r" "r \<noteq> []" "last r = CHR ''}''" "brace_free (butlast r)"
    by (auto simp: braced_def split: list.splits)
  then have "r = butlast r @ [CHR ''}'']" using append_butlast_last_id[of r] by simp
  then show ?thesis using r that by metis
qed

lemma bracedI: "brace_free body \<Longrightarrow> braced (CHR ''{'' # body @ [CHR ''}''])"
  by (simp add: braced_def)

lemma braced_Cons:
  assumes "braced t"
  obtains x where "t = CHR ''{'' # x" "CHR ''{'' \<notin> set x" "x \<noteq> []"
proof -
  from assms obtain body where "t = CHR ''{'' # body @ [CHR ''}'']" "brace_free body"
    by (rule bracedE)
  then show ?thesis using that[of "body @ [CHR ''}'']"] by (simp add: brace_free_def)
qed

lemma take_butlast_app: "n \<le> length xs \<Longrightarrow> take n (xs @ ys) = take n xs"
  by simp

lemma braced_proper_prefix:
  assumes "braced t" "n < length t"
  shows "CHR ''}'' \<notin> set (take n t)"
proof -
  from assms(1) obtain body where t: "t = (CHR ''{'' # body) @ [CHR ''}'']" and bf: "brace_free body"
    by (metis bracedE append_Cons)
  have "n \<le> length (CHR ''{'' # body)" using assms(2) t by simp
  then have "take n t = take n (CHR ''{'' # body)"
    unfolding t by (rule take_butlast_app)
  moreover have "CHR ''}'' \<notin> set (CHR ''{'' # body)" using bf by (simp add: brace_free_def)
  ultimately show ?thesis using set_take_subset[of n "CHR ''{'' # body"] by auto
qed

lemma upper_eq_length: "ascii_upper p = ascii_upper q \<Longrightarrow> length p = length q"
  by (metis length_map ascii_upper_def)

lemma token_match_whole:
  assumes "runtime_ascii rt" "ascii_text tok" "ascii_upper p = ascii_upper tok"
  shows "matches_at rt p tok"
proof -
  have "length p = length tok" using assms(3) by (rule upper_eq_length)
  then show ?thesis using assms by (simp add: matches_at_iff)
qed

text \<open>A pattern with a closing brace matches inside a token only as a whole.\<close>

lemma token_match_short:
  assumes "runtime_ascii rt" "ascii_text tok"
    and "CHR ''}'' \<in> set p" "braced tok" "matches_at rt p tok"
  shows "ascii_upper p = ascii_upper tok"
proof -
  from assms(5) have le: "length p \<le> length tok"
    and eq: "ascii_upper p = ascii_upper (take (length p) tok)"
    using matches_at_iff[OF assms(1,2), of p] by simp_all
  have "length p = length tok"
  proof (rule ccontr)
    assume "length p \<noteq> length tok"
    then have "length p < length tok" using le by simp
    then have "CHR ''}'' \<notin> set (take (length p) tok)"
      using braced_proper_prefix[OF assms(4)] by simp
    then show False using assms(3) eq rbrace_in_upper by metis
  qed
  then show ?thesis using eq by simp
qed

subsection \<open>Unfolding the replacement\<close>

lemma replace_from_match:
  assumes "p \<noteq> []" "matches_at rt p s"
  shows "replace_from rt p r pre s =
           GetSubstitution (take (length p) s) pre (drop (length p) s) r
             @ replace_from rt p r (pre @ take (length p) s) (drop (length p) s)"
proof (cases s)
  case Nil
  then show ?thesis using assms by (cases p) simp_all
next
  case (Cons c cs)
  have "drop (length p - 1) cs = drop (length p) (c # cs)"
    using assms(1) by (cases p) simp_all
  then show ?thesis using assms Cons by simp
qed

lemma replace_from_nomatch:
  "\<not> matches_at rt p (c # cs) \<Longrightarrow>
     replace_from rt p r pre (c # cs) = c # replace_from rt p r (pre @ [c]) cs"
  by simp

text \<open>A pattern that matches nowhere in the text leaves it as it is.\<close>

lemma replace_from_no_occurrence:
  "\<not> occurs rt q s \<Longrightarrow> replace_from rt q r pre s = s"
  by (induction s arbitrary: pre) auto

declare replace_from.simps(2) [simp del]

lemma matches_lbrace_first:
  assumes "runtime_ascii rt" "c \<noteq> CHR ''{''"
  shows "\<not> matches_at rt (CHR ''{'' # x) (c # cs)"
proof -
  have "is_ascii CHR ''{''" by (simp add: is_ascii_def)
  from canonicalize_ascii[OF assms(1) this, of c]
  have "canonicalize rt CHR ''{'' \<noteq> canonicalize rt c"
    using assms(2) upper_eq_lbrace[of c] by auto
  then show ?thesis by simp
qed

lemma replace_from_skip:
  "runtime_ascii rt \<Longrightarrow> CHR ''{'' \<notin> set w \<Longrightarrow>
     replace_from rt (CHR ''{'' # x) r pre (w @ s) = w @ replace_from rt (CHR ''{'' # x) r (pre @ w) s"
proof (induction w arbitrary: pre)
  case Nil
  then show ?case by simp
next
  case (Cons c w)
  then have "c \<noteq> CHR ''{''" by auto
  then have "\<not> matches_at rt (CHR ''{'' # x) (c # w @ s)"
    using Cons.prems(1) by (intro matches_lbrace_first)
  then have "replace_from rt (CHR ''{'' # x) r pre (c # w @ s)
               = c # replace_from rt (CHR ''{'' # x) r (pre @ [c]) (w @ s)"
    by (rule replace_from_nomatch)
  then show ?case using Cons by simp
qed

lemma replace_from_no_lbrace:
  "runtime_ascii rt \<Longrightarrow> CHR ''{'' \<notin> set w \<Longrightarrow> replace_from rt (CHR ''{'' # x) r pre w = w"
  using replace_from_skip[of rt w x r pre "[]"] by simp

lemma replace_from_token_only:
  assumes "runtime_ascii rt" "ascii_text tok"
    and "CHR ''}'' \<in> set (CHR ''{'' # x)" "braced tok"
  shows "replace_from rt (CHR ''{'' # x) r pre tok =
           (if ascii_upper (CHR ''{'' # x) = ascii_upper tok then GetSubstitution tok pre [] r else tok)"
proof (cases "ascii_upper (CHR ''{'' # x) = ascii_upper tok")
  case True
  then have l: "length (CHR ''{'' # x) = length tok" by (rule upper_eq_length)
  have m: "matches_at rt (CHR ''{'' # x) tok"
    using assms(1,2) True by (rule token_match_whole)
  have "CHR ''{'' # x \<noteq> []" by simp
  from replace_from_match[OF this m, of r pre] show ?thesis using True l by simp
next
  case False
  then have m: "\<not> matches_at rt (CHR ''{'' # x) tok"
    using token_match_short[OF assms] by blast
  from assms(4) obtain y where t: "tok = CHR ''{'' # y" and y: "CHR ''{'' \<notin> set y"
    by (rule braced_Cons)
  have "replace_from rt (CHR ''{'' # x) r pre (CHR ''{'' # y)
          = CHR ''{'' # replace_from rt (CHR ''{'' # x) r (pre @ [CHR ''{'']) y"
    using m unfolding t by (rule replace_from_nomatch)
  then show ?thesis using False t replace_from_no_lbrace[OF assms(1) y] by simp
qed

subsection \<open>A template that is one placeholder\<close>

lemma substitute_each_no_occurrence:
  assumes "\<forall>q \<in> set (map fst T). regex_literal q \<and> \<not> occurs rt q e"
  shows "substitute_each rt esc T e = Inr e"
  using assms
proof (induction T)
  case Nil
  then show ?case by simp
next
  case (Cons a T)
  obtain q w where a: "a = (q, w)" by (cases a)
  with Cons.prems have l: "regex_literal q" and n: "\<not> occurs rt q e" by simp_all
  have "replace_placeholder rt q (escapeShellArgument esc w) e = Some e"
    using l replace_from_no_occurrence[OF n] by (simp add: replace_placeholder_def replace_gi_def)
  then show ?case using Cons a by simp
qed

lemma lower_upper: "ascii_lower (ascii_upper s) = ascii_lower s"
  by (simp add: ascii_lower_def ascii_upper_def lower_upper_char)

lemma upper_lower: "ascii_upper (ascii_lower s) = ascii_upper s"
  by (simp add: ascii_lower_def ascii_upper_def upper_lower_char)

lemma lowercase_key_match:
  assumes "ascii_lower ph = ph"
  shows "(ascii_upper ph = ascii_upper tok) = (ph = ascii_lower tok)"
proof
  assume "ascii_upper ph = ascii_upper tok"
  then have "ascii_lower (ascii_upper ph) = ascii_lower (ascii_upper tok)" by simp
  then show "ph = ascii_lower tok" using assms by (simp add: lower_upper)
next
  assume "ph = ascii_lower tok"
  then show "ascii_upper ph = ascii_upper tok" by (simp add: upper_lower)
qed

lemma substitute_each_token:
  assumes "runtime_ascii rt" "ascii_text tok" "braced tok"
    and "dollar_pattern_free (escapeShellArgument esc v)"
  shows "\<forall>ph \<in> fst ` set T. key_ok ph \<Longrightarrow>
         map_of T (ascii_lower tok) = Some v \<Longrightarrow>
         \<forall>q \<in> set (keys_after (ascii_lower tok) T). \<not> occurs rt q (escapeShellArgument esc v) \<Longrightarrow>
         substitute_each rt esc T tok = Inr (escapeShellArgument esc v)"
proof (induction T)
  case Nil
  then show ?case by simp
next
  case (Cons a T)
  obtain ph w where a: "a = (ph, w)" by (cases a)
  with Cons.prems have k: "key_ok ph" and rest: "\<forall>ph \<in> fst ` set T. key_ok ph" by simp_all
  from k obtain x where ph: "ph = CHR ''{'' # x" and rb: "CHR ''}'' \<in> set (CHR ''{'' # x)"
    and low: "ascii_lower ph = ph" and lit: "regex_literal ph"
    by (auto simp: key_ok_def)
  have rep: "replace_placeholder rt ph r tok
               = Some (if ph = ascii_lower tok then GetSubstitution tok [] [] r else tok)" for r
    unfolding replace_placeholder_def replace_gi_def
    using replace_from_token_only[OF assms(1,2) rb assms(3), of r "[]"]
      lowercase_key_match[OF low, of tok] ph lit
    by simp
  show ?case
  proof (cases "ph = ascii_lower tok")
    case True
    then have "w = v" using Cons.prems(2) a by simp
    then have r: "replace_placeholder rt ph (escapeShellArgument esc w) tok
                    = Some (escapeShellArgument esc v)"
      using rep True GetSubstitution_dollar_pattern_free[OF assms(4)] by simp
    have "\<forall>q \<in> set (map fst T). \<not> occurs rt q (escapeShellArgument esc v)"
      using Cons.prems(3) a True by simp
    moreover have "\<forall>q \<in> set (map fst T). regex_literal q"
      using rest by (simp add: key_ok_def)
    ultimately have "substitute_each rt esc T (escapeShellArgument esc v) = Inr (escapeShellArgument esc v)"
      by (intro substitute_each_no_occurrence) simp
    then show ?thesis using a r by simp
  next
    case False
    then have m: "map_of T (ascii_lower tok) = Some v" using Cons.prems(2) a by simp
    have n: "\<forall>q \<in> set (keys_after (ascii_lower tok) T). \<not> occurs rt q (escapeShellArgument esc v)"
      using Cons.prems(3) a False by simp
    show ?thesis using Cons.IH[OF rest m n] a rep False by simp
  qed
qed

subsection \<open>The keys of the table\<close>

lemma ascii_lower_id: "\<forall>c \<in> set s. \<not> is_upper c \<Longrightarrow> ascii_lower s = s"
  by (induction s) (simp_all add: ascii_lower_def ascii_lower_char_def)

lemma lower_append: "ascii_lower (a @ b) = ascii_lower a @ ascii_lower b"
  by (simp add: ascii_lower_def)

lemma lower_prompt_prefix: "ascii_lower ''{prompt:'' = ''{prompt:''"
  by (simp add: ascii_lower_def ascii_lower_char_def is_upper_def)

lemma lower_prompt_suffix: "ascii_lower ''}'' = ''}''"
  by (simp add: ascii_lower_def ascii_lower_char_def is_upper_def)

lemma prompt_key_ok:
  assumes "runtime_ascii rt" "regex_literal (prompt_placeholder rt kw)"
  shows "key_ok (prompt_placeholder rt kw)"
proof -
  have "\<forall>c \<in> set (js_toLowerCase rt kw). \<not> is_upper c"
    using assms(1) unfolding runtime_ascii_def by blast
  then have "ascii_lower (js_toLowerCase rt kw) = js_toLowerCase rt kw" by (rule ascii_lower_id)
  then have "ascii_lower (prompt_placeholder rt kw) = prompt_placeholder rt kw"
    unfolding prompt_placeholder_def lower_append lower_prompt_prefix lower_prompt_suffix
    by simp
  then show ?thesis using assms(2) by (simp add: key_ok_def prompt_placeholder_def)
qed

lemma fixed_keys_ok: "\<forall>ph \<in> fst ` set (fixed_substitutions ctx). key_ok ph"
  by (simp add: fixed_substitutions_def key_ok_def regex_literal_def regex_syntax_char_def
      ascii_lower_def ascii_lower_char_def is_upper_def)

lemma add_prompts_keys:
  "fst ` set (add_prompts rt tab ps) = fst ` set tab \<union> prompt_placeholder rt ` fst ` set ps"
proof (induction ps arbitrary: tab)
  case Nil
  then show ?case by simp
next
  case (Cons a ps)
  obtain kw w where a: "a = (kw, w)" by (cases a)
  show ?case
    unfolding a add_prompts.simps Cons.IH dom_update by auto
qed

lemma substitutions_keys_ok:
  assumes "runtime_ascii rt"
    and "\<forall>ps. prompts ctx = Some ps \<longrightarrow> (\<forall>kw \<in> fst ` set ps. regex_literal (prompt_placeholder rt kw))"
  shows "\<forall>ph \<in> fst ` set (substitutions rt ctx). key_ok ph"
proof (cases "prompts ctx")
  case None
  then show ?thesis using fixed_keys_ok by (simp add: substitutions_def)
next
  case (Some ps)
  then have "\<forall>kw \<in> fst ` set ps. regex_literal (prompt_placeholder rt kw)" using assms(2) by simp
  then have "\<forall>ph \<in> prompt_placeholder rt ` fst ` set ps. key_ok ph"
    using prompt_key_ok[OF assms(1)] by blast
  then have "\<forall>ph \<in> fst ` set (add_prompts rt (fixed_substitutions ctx) ps). key_ok ph"
    unfolding add_prompts_keys using fixed_keys_ok[of ctx] by blast
  then show ?thesis using Some by (simp add: substitutions_def)
qed

lemma prompt_placeholder_eq:
  "(prompt_placeholder rt kw = prompt_placeholder rt k) = (js_toLowerCase rt kw = js_toLowerCase rt k)"
  by (simp add: prompt_placeholder_def)

lemma map_of_add_prompts:
  assumes "\<forall>(kw, w) \<in> set ps. js_toLowerCase rt kw = js_toLowerCase rt k \<longrightarrow> w = v"
  shows "map_of (add_prompts rt tab ps) (prompt_placeholder rt k) =
           (if \<exists>(kw, w) \<in> set ps. js_toLowerCase rt kw = js_toLowerCase rt k then Some v
            else map_of tab (prompt_placeholder rt k))"
  using assms
proof (induction ps arbitrary: tab)
  case Nil
  then show ?case by simp
next
  case (Cons a ps)
  obtain kw w where a: "a = (kw, w)" by (cases a)
  have rest: "\<forall>(kw, w) \<in> set ps. js_toLowerCase rt kw = js_toLowerCase rt k \<longrightarrow> w = v"
    using Cons.prems by simp
  have step: "map_of (AList.update (prompt_placeholder rt kw) w tab) (prompt_placeholder rt k)
                = (if js_toLowerCase rt kw = js_toLowerCase rt k then Some w
                   else map_of tab (prompt_placeholder rt k))"
    by (simp add: update_conv' prompt_placeholder_eq)
  have w: "js_toLowerCase rt kw = js_toLowerCase rt k \<Longrightarrow> w = v" using Cons.prems a by simp
  show ?case
    unfolding a add_prompts.simps Cons.IH[OF rest] step using w by auto
qed

lemma map_of_substitutions_prompt:
  assumes "prompts ctx = Some ps" "(k, v) \<in> set ps"
    and "\<forall>(kw, w) \<in> set ps. js_toLowerCase rt kw = js_toLowerCase rt k \<longrightarrow> w = v"
  shows "map_of (substitutions rt ctx) (prompt_placeholder rt k) = Some v"
proof -
  have "\<exists>(kw, w) \<in> set ps. js_toLowerCase rt kw = js_toLowerCase rt k" using assms(2) by auto
  then show ?thesis
    using map_of_add_prompts[OF assms(3), of "fixed_substitutions ctx"] assms(1)
    by (simp add: substitutions_def)
qed

lemma braced_upper: "braced t \<Longrightarrow> braced (ascii_upper t)"
proof -
  assume "braced t"
  then obtain body where t: "t = CHR ''{'' # body @ [CHR ''}'']" and bf: "brace_free body"
    by (rule bracedE)
  have "brace_free (ascii_upper body)"
    using bf by (induction body) (auto simp: brace_free_def ascii_upper_def lbrace_eq_upper rbrace_eq_upper)
  then have "braced (CHR ''{'' # ascii_upper body @ [CHR ''}''])" by (rule bracedI)
  then show ?thesis unfolding t by (simp add: ascii_upper_def)
qed

lemma braced_prompt_template: "brace_free k \<Longrightarrow> braced (''{prompt:'' @ k @ ''}'')"
proof -
  assume "brace_free k"
  then have "brace_free (''prompt:'' @ k)" by (simp add: brace_free_def)
  then have "braced (CHR ''{'' # (''prompt:'' @ k) @ [CHR ''}''])" by (rule bracedI)
  then show ?thesis by simp
qed

lemma ascii_prompt_template: "ascii_text k \<Longrightarrow> ascii_text (''{prompt:'' @ k @ ''}'')"
  by (simp add: ascii_text_def is_ascii_def)

lemma lower_prompt_template:
  assumes "runtime_ascii rt" "ascii_text k"
  shows "ascii_lower (''{prompt:'' @ k @ ''}'') = prompt_placeholder rt k"
proof -
  have "js_toLowerCase rt k = ascii_lower k"
    using assms unfolding runtime_ascii_def by blast
  then show ?thesis
    unfolding prompt_placeholder_def lower_append lower_prompt_prefix lower_prompt_suffix by simp
qed

text \<open>
  Claim C3, as the code has it. Let the runtime treat ASCII text as the language
  prescribes, and let the prompts of the context hold the keyword \<open>k\<close> with the value
  \<open>v\<close>, where \<open>k\<close> is ASCII text without a brace, the placeholder of no prompt keyword
  holds a syntax character of regular expressions, every keyword that lower-cases to the
  same text as \<open>k\<close> holds the value \<open>v\<close>, the escaped form of \<open>v\<close> holds no dollar
  pattern, and no placeholder the table lists after the one of \<open>k\<close> occurs in that escaped
  form. Then substituting the template that is the token \<open>{prompt:k}\<close> alone gives exactly
  the escaped form of \<open>v\<close>, and so does the upper-cased template.
\<close>

theorem prompt_substitution:
  assumes "runtime_ascii rt"
    and "prompts ctx = Some ps" "(k, v) \<in> set ps"
    and "ascii_text k" "brace_free k"
    and "\<forall>kw \<in> fst ` set ps. regex_literal (prompt_placeholder rt kw)"
    and "\<forall>(kw, w) \<in> set ps. js_toLowerCase rt kw = js_toLowerCase rt k \<longrightarrow> w = v"
    and "dollar_pattern_free (escapeShellArgument shescape v)"
    and "\<forall>q \<in> set (keys_after (prompt_placeholder rt k) (substitutions rt ctx)).
           \<not> occurs rt q (escapeShellArgument shescape v)"
  shows "substituteParameters rt shescape (''{prompt:'' @ k @ ''}'') ctx
           = Inr (escapeShellArgument shescape v)
       \<and> substituteParameters rt shescape (js_toUpperCase rt (''{prompt:'' @ k @ ''}'')) ctx
           = Inr (escapeShellArgument shescape v)"
proof -
  let ?t = "''{prompt:'' @ k @ ''}''"
  have keys: "\<forall>ph \<in> fst ` set (substitutions rt ctx). key_ok ph"
    using assms(1,2,6) by (intro substitutions_keys_ok) simp_all
  have b: "braced ?t" using assms(5) by (rule braced_prompt_template)
  have a: "ascii_text ?t" using assms(4) by (rule ascii_prompt_template)
  have l: "ascii_lower ?t = prompt_placeholder rt k"
    using assms(1,4) by (rule lower_prompt_template)
  have u: "js_toUpperCase rt ?t = ascii_upper ?t"
    using assms(1) a unfolding runtime_ascii_def by blast
  have m: "map_of (substitutions rt ctx) (ascii_lower ?t) = Some v"
    unfolding l using assms(2,3,7) by (rule map_of_substitutions_prompt)
  have n: "\<forall>q \<in> set (keys_after (ascii_lower ?t) (substitutions rt ctx)).
             \<not> occurs rt q (escapeShellArgument shescape v)"
    unfolding l by (rule assms(9))
  have a': "ascii_text (ascii_upper ?t)" using a by (simp only: ascii_text_upper)
  have m': "map_of (substitutions rt ctx) (ascii_lower (ascii_upper ?t)) = Some v"
    unfolding lower_upper by (rule m)
  have n': "\<forall>q \<in> set (keys_after (ascii_lower (ascii_upper ?t)) (substitutions rt ctx)).
             \<not> occurs rt q (escapeShellArgument shescape v)"
    unfolding lower_upper by (rule n)
  have "substitute_each rt shescape (substitutions rt ctx) ?t = Inr (escapeShellArgument shescape v)"
    using assms(1) a b assms(8) keys m n by (rule substitute_each_token)
  moreover have "substitute_each rt shescape (substitutions rt ctx) (ascii_upper ?t)
                   = Inr (escapeShellArgument shescape v)"
    using assms(1) a' braced_upper[OF b] assms(8) keys m' n' by (rule substitute_each_token)
  ultimately show ?thesis
    unfolding substituteParameters_def u by simp
qed

subsection \<open>The runtimes of the examples\<close>

lemma lower_char_not_upper: "\<not> is_upper (ascii_lower_char c)"
  by (cases c) (auto simp: ascii_lower_char_def is_upper_def)

lemma runtime_ascii_example: "runtime_ascii example_runtime"
  by (simp add: runtime_ascii_def example_runtime_def ascii_lower_def lower_char_not_upper)

lemma sharp_s_upper:
  "ascii_text s \<Longrightarrow>
     concat (map (\<lambda>c. if c = CHR 0xDF then ''SS'' else [ascii_upper_char c]) s) = ascii_upper s"
  by (induction s) (auto simp: ascii_text_def is_ascii_def ascii_upper_def)

lemma runtime_ascii_sharp_s: "runtime_ascii example_sharp_s_runtime"
  by (simp add: runtime_ascii_def example_sharp_s_runtime_def example_runtime_def ascii_lower_def
      lower_char_not_upper sharp_s_upper)

theorem prompt_substitution_witness:
  "runtime_ascii example_runtime
   \<and> escapeShellArgument shescape_backslash ''$HOME'' = [CHR 0x5C] @ ''$HOME''
   \<and> substituteParameters example_runtime shescape_backslash ''{prompt:Name}'' example_prompt_context
       = Inr ([CHR 0x5C] @ ''$HOME'')
   \<and> substituteParameters example_runtime shescape_backslash ''{PROMPT:NAME}'' example_prompt_context
       = Inr ([CHR 0x5C] @ ''$HOME'')"
proof -
  have p: "prompts example_prompt_context = Some [(''Name'', ''$HOME'')]"
    by (simp add: example_prompt_context_def)
  have m: "(''Name'', ''$HOME'') \<in> set [(''Name'', ''$HOME'')]"
    by simp
  have a: "ascii_text ''Name''"
    by (simp add: ascii_text_def is_ascii_def)
  have b: "brace_free ''Name''"
    by (simp add: brace_free_def)
  have l: "\<forall>kw \<in> fst ` set [(''Name'', ''$HOME'')]. regex_literal (prompt_placeholder example_runtime kw)"
    by code_simp
  have s: "\<forall>(kw, w) \<in> set [(''Name'', ''$HOME'')].
             js_toLowerCase example_runtime kw = js_toLowerCase example_runtime ''Name'' \<longrightarrow> w = ''$HOME''"
    by simp
  have e: "escapeShellArgument shescape_backslash ''$HOME'' = [CHR 0x5C] @ ''$HOME''"
    by code_simp
  have d: "dollar_pattern_free (escapeShellArgument shescape_backslash ''$HOME'')"
    unfolding e by simp
  have n: "\<forall>q \<in> set (keys_after (prompt_placeholder example_runtime ''Name'')
                       (substitutions example_runtime example_prompt_context)).
             \<not> occurs example_runtime q (escapeShellArgument shescape_backslash ''$HOME'')"
    by code_simp
  have u: "js_toUpperCase example_runtime (''{prompt:'' @ ''Name'' @ ''}'') = ''{PROMPT:NAME}''"
    by code_simp
  from prompt_substitution[OF runtime_ascii_example p m a b l s d n]
  show ?thesis using runtime_ascii_example unfolding u e by simp
qed

text \<open>
  Claim C3 as stated fails in each of these cases. The escaped value holds a dollar
  pattern of \<open>String.prototype.replace\<close>: the value \<open>$$\<close> comes out as one dollar sign.
  Two keywords differ in case only: the later value is substituted for both. A keyword
  holds a syntax character of regular expressions: for the keyword that is an opening
  parenthesis the constructor of the regular expression throws. The value of \<open>k\<close> holds
  the placeholder of a later keyword: it is substituted again. The keyword holds a
  placeholder: it is substituted before the prompts are. The keyword is not ASCII text:
  for the keyword sharp s the token is substituted, but the upper-cased template reads
  \<open>{PROMPT:SS}\<close> and is left as it is.
\<close>

theorem prompt_substitution_counterexample:
  "substituteParameters example_runtime shescape_throws ''{prompt:k}''
       ((getParameterContext example_host)\<lparr>prompts := Some [(''k'', ''$$'')]\<rparr>)
     = Inr ([CHR 0x22] @ ''$'' @ [CHR 0x22])
   \<and> escapeShellArgument shescape_throws ''$$'' = [CHR 0x22] @ ''$$'' @ [CHR 0x22]
   \<and> substituteParameters example_runtime shescape_plain ''{prompt:A}''
       ((getParameterContext example_host)\<lparr>prompts := Some [(''A'', ''1''), (''a'', ''2'')]\<rparr>)
     = Inr ''2''
   \<and> escapeShellArgument shescape_plain ''1'' = ''1''
   \<and> substituteParameters example_runtime shescape_plain ''{prompt:(}''
       ((getParameterContext example_host)\<lparr>prompts := Some [(''('', ''x'')]\<rparr>)
     = Inl (SyntaxError ([CHR 0x5C] @ ''{prompt:('' @ [CHR 0x5C] @ ''}''))
   \<and> substituteParameters example_runtime shescape_plain ''{prompt:k}''
       ((getParameterContext example_host)\<lparr>prompts := Some [(''k'', ''{prompt:z}''), (''z'', ''boom'')]\<rparr>)
     = Inr ''boom''
   \<and> escapeShellArgument shescape_plain ''{prompt:z}'' = ''{prompt:z}''
   \<and> substituteParameters example_runtime shescape_plain ''{prompt:{activenote}}''
       ((getParameterContext example_host)\<lparr>prompts := Some [(''{activenote}'', ''x'')]\<rparr>)
     = Inr ''{prompt:todo}''
   \<and> substituteParameters example_sharp_s_runtime shescape_plain (''{prompt:'' @ [CHR 0xDF] @ ''}'')
       ((getParameterContext example_host)\<lparr>prompts := Some [([CHR 0xDF], ''x'')]\<rparr>)
     = Inr ''x''
   \<and> js_toUpperCase example_sharp_s_runtime (''{prompt:'' @ [CHR 0xDF] @ ''}'') = ''{PROMPT:SS}''
   \<and> substituteParameters example_sharp_s_runtime shescape_plain
       (js_toUpperCase example_sharp_s_runtime (''{prompt:'' @ [CHR 0xDF] @ ''}''))
       ((getParameterContext example_host)\<lparr>prompts := Some [([CHR 0xDF], ''x'')]\<rparr>)
     = Inr ''{PROMPT:SS}''
   \<and> escapeShellArgument shescape_plain ''x'' = ''x''"
  by code_simp

text \<open>
  Claim C1 against the code. The code substitutes one placeholder after another, each time
  over the whole text so far, so the text inserted for one placeholder is read again for
  the placeholders the table lists after it. In the note of \<open>example_hostile_host\<close> the
  selected text is \<open>{currentline}\<close> with a line feed and the current line is \<open>;id\<close>.
  With an escaper that puts a backslash before each special character, the selected text
  escapes to a backslash before \<open>{currentline}\<close>, and the current line to a backslash
  before \<open>;id\<close>. Read once, the template \<open>echo {selectedtext}\<close> gives \<open>echo\<close>
  with the escaped selection. The code gives \<open>echo\<close> with two backslashes before
  \<open>;id\<close>: the backslash that escaped the brace of the selection now escapes the
  backslash that was to escape the semicolon, and the semicolon ends the command
  \<open>echo\<close>. With the fallback of the source for an escaper that throws, a selection that
  reads \<open>{vaultpath}\<close> is replaced a second time, by the vault path.
\<close>

theorem substitution_rescans_escaped_text:
  "selectedText (getParameterContext example_hostile_host) = Some (''{currentline}'' @ [CHR 0x0A])
   \<and> currentLine (getParameterContext example_hostile_host) = Some '';id''
   \<and> escapeShellArgument shescape_backslash (''{currentline}'' @ [CHR 0x0A])
     = [CHR 0x5C] @ ''{currentline}'' @ [CHR 0x0A]
   \<and> escapeShellArgument shescape_backslash '';id'' = [CHR 0x5C] @ '';id''
   \<and> substituteParameters example_runtime shescape_backslash ''echo {selectedtext}''
       (getParameterContext example_hostile_host)
     = Inr (''echo '' @ [CHR 0x5C, CHR 0x5C] @ '';id'' @ [CHR 0x0A])
   \<and> single_pass example_runtime shescape_backslash
       (substitutions example_runtime (getParameterContext example_hostile_host))
       ''echo {selectedtext}''
     = ''echo '' @ [CHR 0x5C] @ ''{currentline}'' @ [CHR 0x0A]
   \<and> substituteParameters example_runtime shescape_throws ''echo {selectedtext}''
       ((getParameterContext example_host)\<lparr>selectedText := Some ''{vaultpath}''\<rparr>)
     = Inr (''echo '' @ [CHR 0x22] @ ''/Users/me/Vault'' @ [CHR 0x22])
   \<and> single_pass example_runtime shescape_throws
       (substitutions example_runtime
          ((getParameterContext example_host)\<lparr>selectedText := Some ''{vaultpath}''\<rparr>))
       ''echo {selectedtext}''
     = ''echo '' @ [CHR 0x22] @ ''{vaultpath}'' @ [CHR 0x22]"
  by code_simp

end
